theory Spec2Isabelle
  imports Complex_Main "HOL-Library.Sublist"
begin

text \<open>
  A shallow embedding of the story-telling application's library code
  (\<^verbatim>\<open>src/lib/utils.ts\<close>, \<^verbatim>\<open>src/lib/errors.ts\<close> with the validation helpers,
  \<^verbatim>\<open>src/lib/llm-factory.ts\<close>, \<^verbatim>\<open>src/lib/image-factory.ts\<close>) and of the route handler
  \<^verbatim>\<open>src/app/api/story/continue/route.ts\<close>, followed by the properties proved about it.

  Conventions.
  \<^item> A JavaScript string is a list of its code units. \<open>char\<close> has 256 values, so the model
    covers strings whose code units lie in 0..255 (ASCII and Latin-1).
  \<^item> A thrown exception is a value \<open>Inl e\<close> of a sum type; \<^verbatim>\<open>try/catch\<close> is a case
    distinction on it.
  \<^item> What the platform or the network provides (\<^verbatim>\<open>JSON.parse\<close>, \<^verbatim>\<open>Date.now\<close>,
    \<^verbatim>\<open>Math.random\<close>, \<^verbatim>\<open>process.env\<close>, the text provider's answer) is a parameter of
    the function that uses it.
\<close>

section \<open>JavaScript values\<close>

datatype error = SyntaxError | TypeError | Error string

text \<open>A number is a double. The code only floors, compares and counts, all of which are
  exact on the rational value of a finite double; the three other values are kept apart.\<close>

datatype number = Finite rat | PosInfinity | NegInfinity | NaN

text \<open>Objects keep their own properties in insertion order.\<close>

datatype jsval =
    JUndefined
  | JNull
  | JBool bool
  | JNum number
  | JStr string
  | JArr "jsval list"
  | JObj "(string \<times> jsval) list"

text \<open>\<^verbatim>\<open>ToBoolean\<close>: what \<^verbatim>\<open>if (v)\<close>, \<^verbatim>\<open>!v\<close>, \<^verbatim>\<open>a || b\<close> and \<^verbatim>\<open>a && b\<close> test.\<close>

fun truthy :: "jsval \<Rightarrow> bool" where
  "truthy JUndefined = False"
| "truthy JNull = False"
| "truthy (JBool b) = b"
| "truthy (JNum n) = (n \<noteq> Finite 0 \<and> n \<noteq> NaN)"
| "truthy (JStr s) = (s \<noteq> [])"
| "truthy (JArr xs) = True"
| "truthy (JObj fs) = True"

fun typeof :: "jsval \<Rightarrow> string" where
  "typeof JUndefined = ''undefined''"
| "typeof JNull = ''object''"
| "typeof (JBool b) = ''boolean''"
| "typeof (JNum n) = ''number''"
| "typeof (JStr s) = ''string''"
| "typeof (JArr xs) = ''object''"
| "typeof (JObj fs) = ''object''"

fun isArray :: "jsval \<Rightarrow> bool" where
  "isArray (JArr xs) = True"
| "isArray v = False"

text \<open>
  Reading a property \<^verbatim>\<open>v.name\<close>, for the names this program reads (\<^verbatim>\<open>preface\<close>,
  \<^verbatim>\<open>paragraphs\<close>, \<^verbatim>\<open>text\<close>, \<^verbatim>\<open>imagePrompt\<close>, \<^verbatim>\<open>genre\<close>, \<^verbatim>\<open>characters\<close>,
  \<^verbatim>\<open>characterNames\<close>): on \<^verbatim>\<open>undefined\<close> and \<^verbatim>\<open>null\<close> it throws a TypeError; on an
  object it is the own property or \<^verbatim>\<open>undefined\<close>; primitives and arrays have no property
  of these names.
\<close>

fun getProp :: "jsval \<Rightarrow> string \<Rightarrow> error + jsval" where
  "getProp JUndefined name = Inl TypeError"
| "getProp JNull name = Inl TypeError"
| "getProp (JObj fs) name = Inr (case map_of fs name of Some v \<Rightarrow> v | None \<Rightarrow> JUndefined)"
| "getProp v name = Inr JUndefined"

section \<open>JavaScript strings\<close>

text \<open>White space and line terminators among the code units 0..255: what \<^verbatim>\<open>trim\<close>
  removes and what \<^verbatim>\<open>\s\<close> matches.\<close>

definition isWhiteSpace :: "char \<Rightarrow> bool" where
  "isWhiteSpace c =
     (c = CHR 0x09 \<or> c = CHR 0x0A \<or> c = CHR 0x0B \<or> c = CHR 0x0C \<or> c = CHR 0x0D
      \<or> c = CHR 0x20 \<or> c = CHR 0xA0)"

definition trimStart :: "string \<Rightarrow> string" where
  "trimStart s = dropWhile isWhiteSpace s"

definition trimEnd :: "string \<Rightarrow> string" where
  "trimEnd s = rev (dropWhile isWhiteSpace (rev s))"

definition trim :: "string \<Rightarrow> string" where
  "trim s = trimEnd (trimStart s)"

text \<open>\<^verbatim>\<open>s.split(sep)\<close> for a one-character separator: never empty, \<^verbatim>\<open>''.split('\n')\<close> is
  \<^verbatim>\<open>['']\<close>.\<close>

fun split :: "char \<Rightarrow> string \<Rightarrow> string list" where
  "split sep [] = [[]]"
| "split sep (c # cs) =
     (if c = sep then [] # split sep cs
      else (case split sep cs of l # ls \<Rightarrow> (c # l) # ls | [] \<Rightarrow> [[c]]))"

definition startsWith :: "string \<Rightarrow> string \<Rightarrow> bool" where
  "startsWith s p = (take (length p) s = p)"

definition endsWith :: "string \<Rightarrow> string \<Rightarrow> bool" where
  "endsWith s p = startsWith (rev s) (rev p)"

fun includesStr :: "string \<Rightarrow> string \<Rightarrow> bool" where
  "includesStr [] m = (m = [])"
| "includesStr (c # cs) m = (startsWith (c # cs) m \<or> includesStr cs m)"

text \<open>\<^verbatim>\<open>toLowerCase\<close> on the code units 0..255: A-Z, and the Latin-1 capitals U+00C0..U+00DE
  without the multiplication sign U+00D7.\<close>

definition toLowerChar :: "char \<Rightarrow> char" where
  "toLowerChar c =
     (let n = of_char c :: nat
      in if (65 \<le> n \<and> n \<le> 90) \<or> (192 \<le> n \<and> n \<le> 222 \<and> n \<noteq> 215)
         then char_of (n + 32) else c)"

definition toLowerCase :: "string \<Rightarrow> string" where
  "toLowerCase s = map toLowerChar s"

text \<open>\<^verbatim>\<open>xs.indexOf(x)\<close>: the first index holding \<open>x\<close>, or -1.\<close>

fun indexOf :: "'a list \<Rightarrow> 'a \<Rightarrow> int" where
  "indexOf [] x = - 1"
| "indexOf (y # ys) x =
     (if y = x then 0 else (let i = indexOf ys x in if i < 0 then - 1 else i + 1))"

text \<open>\<^verbatim>\<open>xs.slice(start)\<close> for \<open>start \<ge> 0\<close>.\<close>

definition sliceFrom :: "int \<Rightarrow> 'a list \<Rightarrow> 'a list" where
  "sliceFrom start xs = drop (nat start) xs"

text \<open>\<^verbatim>\<open>String(n)\<close> for a non-negative integer: its decimal digits.\<close>

function showNat :: "nat \<Rightarrow> string" where
  "showNat n =
     (if n < 10 then [char_of (48 + n)]
      else showNat (n div 10) @ [char_of (48 + n mod 10)])"
  by pat_completeness auto
termination
  by (relation "measure id") auto

declare showNat.simps [simp del]

definition showInt :: "int \<Rightarrow> string" where
  "showInt i = (if i < 0 then CHR ''-'' # showNat (nat (- i)) else showNat (nat i))"

section \<open>Constants (lib/constants.ts)\<close>

definition IMAGE_PROMPT_PREVIEW_LENGTH :: nat where "IMAGE_PROMPT_PREVIEW_LENGTH = 50"
definition MIN_PARAGRAPH_LENGTH :: nat where "MIN_PARAGRAPH_LENGTH = 100"
definition IMAGE_QUALITY :: string where "IMAGE_QUALITY = ''8k resolution''"
definition FALLBACK_PREFACE :: string where "FALLBACK_PREFACE = ''A story unfolds''"
definition FALLBACK_PARAGRAPH :: string where "FALLBACK_PARAGRAPH = ''The story continues...''"
definition FALLBACK_IMAGE_PROMPT_SUFFIX :: string where
  "FALLBACK_IMAGE_PROMPT_SUFFIX = ''Additional scene from a {genre} story''"
definition MIN_CHARACTERS :: int where "MIN_CHARACTERS = 1"
definition MAX_CHARACTERS :: int where "MAX_CHARACTERS = 6"
definition MIN_PARAGRAPHS :: int where "MIN_PARAGRAPHS = 3"
definition MAX_PARAGRAPHS :: int where "MAX_PARAGRAPHS = 10"
definition MAX_CHARACTER_NAME_LENGTH :: nat where "MAX_CHARACTER_NAME_LENGTH = 50"

section \<open>Image prompts (lib/utils.ts, class ImagePromptUtils)\<close>

definition STYLE_MAPPINGS :: "(string \<times> string) list" where
  "STYLE_MAPPINGS =
     [(''fantasy'', ''magical, ethereal, fantasy art style, detailed''),
      (''mystery'', ''noir, shadowy, mysterious atmosphere, dramatic lighting''),
      (''sci-fi'', ''futuristic, cyberpunk, sci-fi concept art, neon colors''),
      (''romance'', ''soft lighting, romantic, beautiful, artistic''),
      (''horror'', ''dark, eerie, gothic, haunting atmosphere''),
      (''adventure'', ''dynamic, action-packed, adventurous, cinematic'')]"

text \<open>\<^verbatim>\<open>this.STYLE_MAPPINGS[genre] || 'detailed, artistic'\<close>, on the table's own keys.\<close>

definition enhancePrompt :: "string \<Rightarrow> string \<Rightarrow> string" where
  "enhancePrompt originalPrompt genre =
     (let style = (case map_of STYLE_MAPPINGS genre of Some s \<Rightarrow> s | None \<Rightarrow> ''detailed, artistic'')
      in originalPrompt @ '', '' @ style @ '', high quality, '' @ IMAGE_QUALITY)"

definition createFallbackPrompt :: "string \<Rightarrow> string \<Rightarrow> string" where
  "createFallbackPrompt text genre =
     (let preview = take IMAGE_PROMPT_PREVIEW_LENGTH text;
          basePrompt = genre @ '' scene: '' @ preview
            @ (if length text > IMAGE_PROMPT_PREVIEW_LENGTH then ''...'' else [])
      in enhancePrompt basePrompt genre)"

section \<open>JSON parsing with fallbacks (lib/utils.ts, class JSONUtils)\<close>

text \<open>\<^verbatim>\<open>jsonString.match(/\{[\s\S]*\}/)\<close>: the match starts at the first \<^verbatim>\<open>{\<close> and, the star
  being greedy, ends at the last \<^verbatim>\<open>}\<close>; there is none when no \<^verbatim>\<open>}\<close> follows the first
  \<^verbatim>\<open>{\<close>.\<close>

definition matchBraces :: "string \<Rightarrow> string option" where
  "matchBraces s =
     (let r = dropWhile (\<lambda>c. c \<noteq> CHR ''{'') s
      in if CHR ''}'' \<in> set r then Some (rev (dropWhile (\<lambda>c. c \<noteq> CHR ''}'') (rev r)))
         else None)"

text \<open>The four \<^verbatim>\<open>replace\<close> calls of the cleanup, each with a regular expression anchored at
  one end, so each removes at most one prefix or suffix.\<close>

definition fenceOpen :: string where
  "fenceOpen = [CHR 0x60, CHR 0x60, CHR 0x60] @ ''json''"

definition fenceClose :: string where
  "fenceClose = [CHR 0x60, CHR 0x60, CHR 0x60]"

definition stripFenceOpen :: "string \<Rightarrow> string" where
  \<comment> \<open>\<^verbatim>\<open>.replace(/^```json\s*/, '')\<close>\<close>
  "stripFenceOpen s =
     (if startsWith s fenceOpen then dropWhile isWhiteSpace (drop (length fenceOpen) s) else s)"

definition stripFenceClose :: "string \<Rightarrow> string" where
  \<comment> \<open>\<^verbatim>\<open>.replace(/\s*```$/, '')\<close>\<close>
  "stripFenceClose s =
     (if endsWith s fenceClose
      then rev (dropWhile isWhiteSpace (drop (length fenceClose) (rev s))) else s)"

definition stripBeforeBrace :: "string \<Rightarrow> string" where
  \<comment> \<open>\<^verbatim>\<open>.replace(/^[^{]*/, '')\<close>\<close>
  "stripBeforeBrace s = dropWhile (\<lambda>c. c \<noteq> CHR ''{'') s"

definition stripAfterBrace :: "string \<Rightarrow> string" where
  \<comment> \<open>\<^verbatim>\<open>.replace(/[^}]*$/, '')\<close>\<close>
  "stripAfterBrace s = rev (dropWhile (\<lambda>c. c \<noteq> CHR ''}'') (rev s))"

definition cleanString :: "string \<Rightarrow> string" where
  "cleanString jsonString =
     stripAfterBrace (stripBeforeBrace (stripFenceClose (stripFenceOpen (trim jsonString))))"

text \<open>An inner \<^verbatim>\<open>try { return JSON.parse(x); } catch { }\<close>: \<open>Some v\<close> when the function
  returns \<open>v\<close> there, \<open>None\<close> when the exception is swallowed and control falls through.\<close>

definition tryParse :: "(string \<Rightarrow> error + jsval) \<Rightarrow> string \<Rightarrow> jsval option" where
  "tryParse JSON_parse x = (case JSON_parse x of Inr v \<Rightarrow> Some v | Inl e \<Rightarrow> None)"

text \<open>\<^verbatim>\<open>parseWithFallback(jsonString, fallback?)\<close>; an omitted fallback is \<open>JUndefined\<close>.\<close>

definition parseWithFallback ::
  "(string \<Rightarrow> error + jsval) \<Rightarrow> string \<Rightarrow> jsval \<Rightarrow> error + jsval" where
  "parseWithFallback JSON_parse jsonString fallback =
     (case JSON_parse (trim jsonString) of
        Inr v \<Rightarrow> Inr v
      | Inl err \<Rightarrow>
          (case (case matchBraces jsonString of
                   Some jsonMatch \<Rightarrow> tryParse JSON_parse jsonMatch
                 | None \<Rightarrow> None) of
             Some v \<Rightarrow> Inr v
           | None \<Rightarrow>
               (let cleanedString = cleanString jsonString
                in case (if cleanedString \<noteq> [] then tryParse JSON_parse cleanedString else None) of
                     Some v \<Rightarrow> Inr v
                   | None \<Rightarrow> Inr (if truthy fallback then fallback else JNull))))"

text \<open>The texts handed to \<^verbatim>\<open>JSON.parse\<close>, in the order of the attempts: the trimmed text,
  the brace match when there is one, the cleaned text when it is not empty.\<close>

definition candidates :: "string \<Rightarrow> string list" where
  "candidates jsonString =
     [trim jsonString]
     @ (case matchBraces jsonString of Some jsonMatch \<Rightarrow> [jsonMatch] | None \<Rightarrow> [])
     @ (if cleanString jsonString \<noteq> [] then [cleanString jsonString] else [])"

text \<open>\<^verbatim>\<open>data.paragraphs.every(p => typeof p.text === 'string' && typeof p.imagePrompt ===
  'string')\<close>: elements are visited in order, the first failing one ends the visit, and an
  element that is \<^verbatim>\<open>null\<close> makes \<^verbatim>\<open>p.text\<close> throw.\<close>

fun everyParagraph :: "jsval list \<Rightarrow> error + bool" where
  "everyParagraph [] = Inr True"
| "everyParagraph (p # ps) =
     (case getProp p ''text'' of
        Inl e \<Rightarrow> Inl e
      | Inr t \<Rightarrow>
          if typeof t \<noteq> ''string'' then Inr False
          else (case getProp p ''imagePrompt'' of
                  Inl e \<Rightarrow> Inl e
                | Inr i \<Rightarrow> if typeof i \<noteq> ''string'' then Inr False else everyParagraph ps))"

text \<open>\<^verbatim>\<open>validateStoryStructure(data)\<close>, as the truth value its caller tests.\<close>

definition validateStoryStructure :: "jsval \<Rightarrow> error + bool" where
  "validateStoryStructure data =
     (if \<not> truthy data then Inr False
      else if typeof data \<noteq> ''object'' then Inr False
      else (case getProp data ''preface'' of
              Inl e \<Rightarrow> Inl e
            | Inr preface \<Rightarrow>
                if typeof preface \<noteq> ''string'' then Inr False
                else (case getProp data ''paragraphs'' of
                        Inl e \<Rightarrow> Inl e
                      | Inr (JArr ps) \<Rightarrow> everyParagraph ps
                      | Inr other \<Rightarrow> Inr False)))"

section \<open>Story parsing (lib/utils.ts, class StoryParsingUtils)\<close>

record storyParagraph =
  "text" :: string
  imagePrompt :: string

text \<open>The request as \<^verbatim>\<open>parseStoryResponse\<close> takes it: \<^verbatim>\<open>{ genre: string; paragraphs: number }\<close>,
  the count a non-negative integer.\<close>

record request =
  genre :: string
  paragraphs :: nat

definition newParagraph :: "string \<Rightarrow> string \<Rightarrow> storyParagraph" where
  "newParagraph currentParagraph g =
     \<lparr>text = currentParagraph, imagePrompt = createFallbackPrompt currentParagraph g\<rparr>"

text \<open>\<^verbatim>\<open>/[.!?]$/.test(line)\<close>: without the \<^verbatim>\<open>m\<close> flag, \<^verbatim>\<open>$\<close> is the end of the string.\<close>

definition endsSentence :: "string \<Rightarrow> bool" where
  "endsSentence line =
     (line \<noteq> [] \<and> (last line = CHR ''.'' \<or> last line = CHR ''!'' \<or> last line = CHR ''?''))"

text \<open>The \<^verbatim>\<open>for (const line of lines)\<close> loop of \<^verbatim>\<open>extractParagraphs\<close>, with its two variables
  \<^verbatim>\<open>paragraphs\<close> and \<^verbatim>\<open>currentParagraph\<close>.\<close>

fun accumulate :: "string \<Rightarrow> storyParagraph list \<Rightarrow> string \<Rightarrow> string list \<Rightarrow> storyParagraph list \<times> string" where
  "accumulate g ps currentParagraph [] = (ps, currentParagraph)"
| "accumulate g ps currentParagraph (line # lines) =
     (if trim line \<noteq> [] then
        (let cur = currentParagraph @ (if currentParagraph \<noteq> [] then '' '' else []) @ trim line
         in if endsSentence line \<and> length cur > MIN_PARAGRAPH_LENGTH
            then accumulate g (ps @ [newParagraph cur g]) [] lines
            else accumulate g ps cur lines)
      else if currentParagraph \<noteq> [] then
        accumulate g (ps @ [newParagraph currentParagraph g]) [] lines
      else accumulate g ps currentParagraph lines)"

text \<open>\<^verbatim>\<open>template.replace('{genre}', genre)\<close> with a string pattern: the first occurrence is
  replaced, and in the replacement \<^verbatim>\<open>$$\<close>, \<^verbatim>\<open>$&\<close>, \<^verbatim>\<open>$`\<close> and \<^verbatim>\<open>$'\<close> stand for a dollar
  sign, the match, the text before it and the text after it.\<close>

fun substitution :: "string \<Rightarrow> string \<Rightarrow> string \<Rightarrow> string \<Rightarrow> string" where
  "substitution matched pre post [] = []"
| "substitution matched pre post [c] = [c]"
| "substitution matched pre post (c # d # r) =
     (if c = CHR ''$'' \<and> d = CHR ''$'' then CHR ''$'' # substitution matched pre post r
      else if c = CHR ''$'' \<and> d = CHR ''&'' then matched @ substitution matched pre post r
      else if c = CHR ''$'' \<and> d = CHR 0x60 then pre @ substitution matched pre post r
      else if c = CHR ''$'' \<and> d = CHR 0x27 then post @ substitution matched pre post r
      else c # substitution matched pre post (d # r))"

definition fallbackImagePrompt :: "string \<Rightarrow> string" where
  \<comment> \<open>\<^verbatim>\<open>STORY_CONSTANTS.FALLBACK_IMAGE_PROMPT_SUFFIX.replace('{genre}', request.genre)\<close>\<close>
  "fallbackImagePrompt g =
     ''Additional scene from a ''
     @ substitution ''{genre}'' ''Additional scene from a '' '' story'' g
     @ '' story''"

text \<open>\<^verbatim>\<open>while (paragraphs.length < request.paragraphs) paragraphs.push(...)\<close>\<close>

function padParagraphs :: "request \<Rightarrow> storyParagraph list \<Rightarrow> storyParagraph list" where
  "padParagraphs req ps =
     (if length ps < paragraphs req
      then padParagraphs req
             (ps @ [\<lparr>text = FALLBACK_PARAGRAPH, imagePrompt = fallbackImagePrompt (genre req)\<rparr>])
      else ps)"
  by pat_completeness auto
termination
  by (relation "measure (\<lambda>(req, ps). paragraphs req - length ps)") auto

declare padParagraphs.simps [simp del]

definition extractParagraphs :: "string list \<Rightarrow> request \<Rightarrow> storyParagraph list" where
  "extractParagraphs lines req =
     (let (ps, currentParagraph) = accumulate (genre req) [] [] lines;
          ps1 = (if currentParagraph \<noteq> []
                 then ps @ [newParagraph currentParagraph (genre req)] else ps);
          ps2 = padParagraphs req ps1
      in take (paragraphs req) ps2)"

text \<open>The marker test of \<^verbatim>\<open>parseAsPlainText\<close>:
  \<^verbatim>\<open>prefaceMarkers.some(marker => lowerLine.includes(marker))\<close>.\<close>

definition prefaceMarkers :: "string list" where
  "prefaceMarkers = [''summary:'', ''preface:'', ''story:'']"

definition hasMarker :: "string \<Rightarrow> bool" where
  "hasMarker line = list_ex (\<lambda>marker. includesStr (toLowerCase line) marker) prefaceMarkers"

definition stripLabel :: "string \<Rightarrow> string" where
  \<comment> \<open>\<^verbatim>\<open>line.replace(/^[^:]*:\s*/, '')\<close>\<close>
  "stripLabel line =
     (if CHR '':'' \<in> set line
      then dropWhile isWhiteSpace (tl (dropWhile (\<lambda>c. c \<noteq> CHR '':'') line))
      else line)"

text \<open>The \<^verbatim>\<open>for (const line of lines)\<close> loop that looks for the preface; it leaves through
  \<^verbatim>\<open>break\<close> at the first marked line. The result is \<^verbatim>\<open>(preface, storyLines)\<close>.\<close>

fun findPreface :: "string list \<Rightarrow> string list \<Rightarrow> string \<times> string list" where
  "findPreface lines [] = (FALLBACK_PREFACE, lines)"
| "findPreface lines (line # rest) =
     (if hasMarker line
      then (trim (stripLabel line), sliceFrom (indexOf lines line + 1) lines)
      else findPreface lines rest)"

definition nonBlankLines :: "string \<Rightarrow> string list" where
  \<comment> \<open>\<^verbatim>\<open>rawResponse.split('\n').filter(line => line.trim())\<close>\<close>
  "nonBlankLines rawResponse = filter (\<lambda>line. trim line \<noteq> []) (split (CHR 0x0A) rawResponse)"

text \<open>The object \<^verbatim>\<open>{ preface, paragraphs }\<close> that the plain-text path builds.\<close>

definition storyObject :: "string \<Rightarrow> storyParagraph list \<Rightarrow> jsval" where
  "storyObject preface ps =
     JObj [(''preface'', JStr preface),
           (''paragraphs'',
            JArr (map (\<lambda>p. JObj [(''text'', JStr (text p)), (''imagePrompt'', JStr (imagePrompt p))]) ps))]"

definition parseAsPlainText :: "string \<Rightarrow> request \<Rightarrow> jsval" where
  "parseAsPlainText rawResponse req =
     (let lines = nonBlankLines rawResponse;
          (preface, storyLines) = findPreface lines lines
      in storyObject preface (extractParagraphs storyLines req))"

definition parseStoryResponse ::
  "(string \<Rightarrow> error + jsval) \<Rightarrow> string \<Rightarrow> request \<Rightarrow> error + jsval" where
  "parseStoryResponse JSON_parse rawResponse req =
     (case parseWithFallback JSON_parse rawResponse JUndefined of
        Inl e \<Rightarrow> Inl e
      | Inr jsonResult \<Rightarrow>
          (case validateStoryStructure jsonResult of
             Inl e \<Rightarrow> Inl e
           | Inr ok \<Rightarrow> if ok then Inr jsonResult else Inr (parseAsPlainText rawResponse req)))"

text \<open>The paragraphs of a returned story, as the caller reads \<^verbatim>\<open>storyData.paragraphs\<close>.\<close>

definition paragraphsOf :: "jsval \<Rightarrow> jsval list" where
  "paragraphsOf story = (case getProp story ''paragraphs'' of Inr (JArr ps) \<Rightarrow> ps | _ \<Rightarrow> [])"

section \<open>Sanitization (lib/errors.ts, class InputSanitizer)\<close>

text \<open>\<^verbatim>\<open>.replace(/<[^>]*>/g, '')\<close>: scanning from the left, a \<^verbatim>\<open><\<close> that is followed somewhere
  by a \<^verbatim>\<open>>\<close> is removed together with everything up to the first such \<^verbatim>\<open>>\<close>, and the scan
  goes on after it.\<close>

function stripTags :: "string \<Rightarrow> string" where
  "stripTags [] = []"
| "stripTags (c # cs) =
     (if c = CHR ''<'' \<and> CHR ''>'' \<in> set cs
      then stripTags (tl (dropWhile (\<lambda>x. x \<noteq> CHR ''>'') cs))
      else c # stripTags cs)"
  by pat_completeness auto
termination
proof (relation "measure length")
  fix c :: char and cs :: string
  have "length (dropWhile (\<lambda>x. x \<noteq> CHR ''>'') cs) \<le> length cs"
    by (rule length_dropWhile_le)
  then show "(tl (dropWhile (\<lambda>x. x \<noteq> CHR ''>'') cs), c # cs) \<in> measure length"
    by simp
qed simp_all

text \<open>\<^verbatim>\<open>.replace(/pat/gi, '')\<close> for a literal pattern of ASCII letters and punctuation, given
  in lower case: every occurrence found by the left-to-right scan is removed, in any mix
  of cases.\<close>

function removeAllCI :: "string \<Rightarrow> string \<Rightarrow> string" where
  "removeAllCI pat [] = []"
| "removeAllCI pat (c # cs) =
     (if pat \<noteq> [] \<and> startsWith (toLowerCase (c # cs)) pat
      then removeAllCI pat (drop (length pat) (c # cs))
      else c # removeAllCI pat cs)"
  by pat_completeness auto
termination
  by (relation "measure (\<lambda>(pat, s). length s)") (auto simp: neq_Nil_conv)

text \<open>\<^verbatim>\<open>\w\<close>: \<^verbatim>\<open>[A-Za-z0-9_]\<close>.\<close>

definition isWordChar :: "char \<Rightarrow> bool" where
  "isWordChar c =
     (let n = of_char c :: nat
      in (48 \<le> n \<and> n \<le> 57) \<or> (65 \<le> n \<and> n \<le> 90) \<or> (97 \<le> n \<and> n \<le> 122) \<or> n = 95)"

text \<open>
  A match of \<^verbatim>\<open>/on\w+\s*=/i\<close> at the start of \<open>s\<close>, as the text that follows the match.
  Word characters, white space and \<^verbatim>\<open>=\<close> are disjoint classes, so the greedy match is
  the only candidate.
\<close>

definition handlerRest :: "string \<Rightarrow> string option" where
  "handlerRest s =
     (if startsWith (toLowerCase s) ''on'' then
        (let r = drop 2 s;
             r1 = dropWhile isWordChar r;
             r2 = dropWhile isWhiteSpace r1
         in if takeWhile isWordChar r \<noteq> [] \<and> r2 \<noteq> [] \<and> hd r2 = CHR ''=''
            then Some (tl r2) else None)
      else None)"

text \<open>\<^verbatim>\<open>.replace(/on\w+\s*=/gi, '')\<close>\<close>

function stripHandlers :: "string \<Rightarrow> string" where
  "stripHandlers [] = []"
| "stripHandlers (c # cs) =
     (case handlerRest (c # cs) of
        Some r \<Rightarrow> stripHandlers r
      | None \<Rightarrow> c # stripHandlers cs)"
  by pat_completeness auto
termination
proof (relation "measure length")
  fix c :: char and cs r :: string
  assume h: "handlerRest (c # cs) = Some r"
  let ?r1 = "dropWhile isWordChar (drop 2 (c # cs))"
  let ?r2 = "dropWhile isWhiteSpace ?r1"
  from h have r: "r = tl ?r2" and ne: "?r2 \<noteq> []"
    by (auto simp: handlerRest_def Let_def split: if_splits)
  have "length ?r2 \<le> length ?r1"
    by (rule length_dropWhile_le)
  also have "\<dots> \<le> length (drop 2 (c # cs))"
    by (rule length_dropWhile_le)
  also have "\<dots> \<le> length (c # cs)"
    by simp
  finally have "length r < length (c # cs)"
    using r ne by (cases ?r2) auto
  then show "(r, c # cs) \<in> measure length"
    by simp
qed simp_all

definition removeNul :: "string \<Rightarrow> string" where
  \<comment> \<open>\<^verbatim>\<open>.replace(/\0/g, '')\<close>\<close>
  "removeNul s = filter (\<lambda>c. c \<noteq> CHR 0x00) s"

text \<open>\<^verbatim>\<open>sanitizeString(input)\<close> for a string input (the guard for other types returns the
  empty string).\<close>

definition sanitizeString :: "string \<Rightarrow> string" where
  "sanitizeString input =
     take 1000 (removeNul (stripHandlers (removeAllCI ''javascript:'' (stripTags (trim input)))))"

text \<open>\<^verbatim>\<open>sanitizeCharacterNames(names)\<close>: \<open>None\<close> is \<^verbatim>\<open>undefined\<close>.\<close>

fun stringsOf :: "jsval list \<Rightarrow> string list" where
  \<comment> \<open>\<^verbatim>\<open>names.filter(name => typeof name === 'string')\<close>\<close>
  "stringsOf [] = []"
| "stringsOf (JStr s # vs) = s # stringsOf vs"
| "stringsOf (v # vs) = stringsOf vs"

fun sanitizeCharacterNames :: "jsval \<Rightarrow> string list option" where
  "sanitizeCharacterNames (JArr names) =
     Some (take (nat MAX_CHARACTERS)
             (filter (\<lambda>name. length name > 0 \<and> length name \<le> MAX_CHARACTER_NAME_LENGTH)
                (map sanitizeString (stringsOf names))))"
| "sanitizeCharacterNames v = None"

text \<open>\<^verbatim>\<open>parseInt(input, 10)\<close>: leading white space, a sign, then the longest run of decimal
  digits; \<open>None\<close> is \<^verbatim>\<open>NaN\<close>.\<close>

definition isDecimalDigit :: "char \<Rightarrow> bool" where
  "isDecimalDigit c = (let n = of_char c :: nat in 48 \<le> n \<and> n \<le> 57)"

definition decimalValue :: "string \<Rightarrow> nat" where
  "decimalValue ds = foldl (\<lambda>acc d. 10 * acc + (of_char d - 48)) 0 ds"

definition parseInt :: "string \<Rightarrow> int option" where
  "parseInt input =
     (let t = trimStart input;
          neg = (t \<noteq> [] \<and> hd t = CHR ''-'');
          u = (if t \<noteq> [] \<and> (hd t = CHR ''-'' \<or> hd t = CHR ''+'') then tl t else t);
          ds = takeWhile isDecimalDigit u
      in if ds = [] then None
         else Some (if neg then - int (decimalValue ds) else int (decimalValue ds)))"

definition inRange :: "int \<Rightarrow> int \<Rightarrow> int \<Rightarrow> int option" where
  \<comment> \<open>\<^verbatim>\<open>num >= min && num <= max ? num : null\<close>\<close>
  "inRange num lo hi = (if num \<ge> lo \<and> num \<le> hi then Some num else None)"

text \<open>\<^verbatim>\<open>sanitizeNumber(input, min, max)\<close>: \<open>None\<close> is \<^verbatim>\<open>null\<close>. An infinite number passes
  the \<^verbatim>\<open>isNaN\<close> test, is its own floor and fails the range test.\<close>

fun sanitizeNumber :: "jsval \<Rightarrow> int \<Rightarrow> int \<Rightarrow> int option" where
  "sanitizeNumber (JNum (Finite r)) lo hi = inRange \<lfloor>r\<rfloor> lo hi"
| "sanitizeNumber (JNum PosInfinity) lo hi = None"
| "sanitizeNumber (JNum NegInfinity) lo hi = None"
| "sanitizeNumber (JNum NaN) lo hi = None"
| "sanitizeNumber (JStr s) lo hi =
     (case parseInt s of Some parsed \<Rightarrow> inRange parsed lo hi | None \<Rightarrow> None)"
| "sanitizeNumber v lo hi = None"

section \<open>Validation (lib/errors.ts, class StoryValidator)\<close>

record ValidationError =
  field :: string
  message :: string

record ValidationResult =
  isValid :: bool
  errors :: "ValidationError list"

definition isValidGenre :: "string \<Rightarrow> bool" where
  "isValidGenre g =
     (g \<in> set [''fantasy'', ''mystery'', ''sci-fi'', ''romance'', ''horror'', ''adventure''])"

definition INVALID_GENRE :: string where
  "INVALID_GENRE = ''Invalid genre provided''"
definition INVALID_CHARACTER_COUNT :: string where
  "INVALID_CHARACTER_COUNT =
     ''Character count must be between '' @ showInt MIN_CHARACTERS @ '' and ''
     @ showInt MAX_CHARACTERS"
definition INVALID_PARAGRAPH_COUNT :: string where
  "INVALID_PARAGRAPH_COUNT =
     ''Paragraph count must be between '' @ showInt MIN_PARAGRAPHS @ '' and ''
     @ showInt MAX_PARAGRAPHS"
definition INVALID_CHARACTER_NAMES :: string where
  "INVALID_CHARACTER_NAMES = ''Character names must be non-empty strings''"
definition CHARACTER_NAME_TOO_LONG :: string where
  "CHARACTER_NAME_TOO_LONG =
     ''Character names must be less than '' @ showNat MAX_CHARACTER_NAME_LENGTH @ '' characters''"

text \<open>The four checks of \<^verbatim>\<open>validateStoryRequest\<close>, each as the errors it pushes.\<close>

definition genreErrors :: "jsval \<Rightarrow> ValidationError list" where
  "genreErrors g =
     (if \<not> truthy g \<or> typeof g \<noteq> ''string''
      then [\<lparr>field = ''genre'', message = INVALID_GENRE\<rparr>]
      else (case g of
              JStr s \<Rightarrow> if \<not> isValidGenre s
                        then [\<lparr>field = ''genre'', message = INVALID_GENRE\<rparr>] else []
            | other \<Rightarrow> []))"

definition countErrors :: "string \<Rightarrow> string \<Rightarrow> int option \<Rightarrow> ValidationError list" where
  "countErrors name msg n = (if n = None then [\<lparr>field = name, message = msg\<rparr>] else [])"

definition mismatchMessage :: "nat \<Rightarrow> int \<Rightarrow> string" where
  "mismatchMessage n charactersCount =
     ''Number of character names ('' @ showNat n @ '') must match character count (''
     @ showInt charactersCount @ '')''"

definition namesErrors :: "jsval \<Rightarrow> int option \<Rightarrow> ValidationError list" where
  "namesErrors names charactersCount =
     (if names = JUndefined then []
      else if \<not> isArray names
      then [\<lparr>field = ''characterNames'', message = INVALID_CHARACTER_NAMES\<rparr>]
      else
        (case sanitizeCharacterNames names of
           None \<Rightarrow> [\<lparr>field = ''characterNames'', message = INVALID_CHARACTER_NAMES\<rparr>]
         | Some sanitizedNames \<Rightarrow>
             (if list_ex (\<lambda>name. length name = 0) sanitizedNames
              then [\<lparr>field = ''characterNames'', message = INVALID_CHARACTER_NAMES\<rparr>]
              else if list_ex (\<lambda>name. length name > MAX_CHARACTER_NAME_LENGTH) sanitizedNames
              then [\<lparr>field = ''characterNames'', message = CHARACTER_NAME_TOO_LONG\<rparr>]
              else [])
             @ (case charactersCount of
                  None \<Rightarrow> []
                | Some n \<Rightarrow>
                    if int (length sanitizedNames) \<noteq> n
                    then [\<lparr>field = ''characterNames'',
                           message = mismatchMessage (length sanitizedNames) n\<rparr>]
                    else [])))"

text \<open>Reading \<^verbatim>\<open>request.name\<close> once \<^verbatim>\<open>data\<close> has passed the object test: an array passes
  it too and has none of the properties read here.\<close>

fun readProp :: "jsval \<Rightarrow> string \<Rightarrow> jsval" where
  "readProp (JObj fs) name = (case map_of fs name of Some v \<Rightarrow> v | None \<Rightarrow> JUndefined)"
| "readProp v name = JUndefined"

definition validateStoryRequest :: "jsval \<Rightarrow> ValidationResult" where
  "validateStoryRequest data =
     (if \<not> truthy data \<or> typeof data \<noteq> ''object''
      then \<lparr>isValid = False,
            errors = [\<lparr>field = ''root'', message = ''Request data must be an object''\<rparr>]\<rparr>
      else
        (let charactersCount =
               sanitizeNumber (readProp data ''characters'') MIN_CHARACTERS MAX_CHARACTERS;
             paragraphsCount =
               sanitizeNumber (readProp data ''paragraphs'') MIN_PARAGRAPHS MAX_PARAGRAPHS;
             errs = genreErrors (readProp data ''genre'')
                    @ countErrors ''characters'' INVALID_CHARACTER_COUNT charactersCount
                    @ countErrors ''paragraphs'' INVALID_PARAGRAPH_COUNT paragraphsCount
                    @ namesErrors (readProp data ''characterNames'') charactersCount
         in \<lparr>isValid = (length errs = 0), errors = errs\<rparr>))"










text \<open>What \<^verbatim>\<open>sanitizeString\<close> is meant to remove, as tests on a string: a match of
  \<^verbatim>\<open>/<[^>]*>/\<close>, of \<^verbatim>\<open>/javascript:/i\<close>, of \<^verbatim>\<open>/on\w+\s*=/i\<close>, a null character.\<close>

definition hasTag :: "string \<Rightarrow> bool" where
  "hasTag s = (CHR ''>'' \<in> set (dropWhile (\<lambda>c. c \<noteq> CHR ''<'') s))"

definition hasJavascriptScheme :: "string \<Rightarrow> bool" where
  "hasJavascriptScheme s = includesStr (toLowerCase s) ''javascript:''"

fun tailsOf :: "string \<Rightarrow> string list" where
  "tailsOf [] = [[]]"
| "tailsOf (c # cs) = (c # cs) # tailsOf cs"

definition hasHandler :: "string \<Rightarrow> bool" where
  "hasHandler s = list_ex (\<lambda>t. handlerRest t \<noteq> None) (tailsOf s)"

definition hasNul :: "string \<Rightarrow> bool" where
  "hasNul s = (CHR 0x00 \<in> set s)"

section \<open>The continue route (app/api/story/continue/route.ts)\<close>

text \<open>
  The request body, as the interface \<^verbatim>\<open>ContinueStoryRequest\<close> types it. The field
  \<^verbatim>\<open>genre\<close> is written \<open>genre'\<close>: the record \<open>request\<close> above owns the name.
\<close>

record ContinueStoryRequest =
  storyId :: string
  existingParagraphs :: "string list"
  genre' :: string
  additionalParagraphs :: "nat option"

definition newline :: string where
  "newline = [CHR 0x0A]"

definition MIN_SENTENCES_PER_PARAGRAPH :: nat where "MIN_SENTENCES_PER_PARAGRAPH = 4"
definition MAX_SENTENCES_PER_PARAGRAPH :: nat where "MAX_SENTENCES_PER_PARAGRAPH = 5"

text \<open>\<^verbatim>\<open>existingParagraphs.map((p, i) => `Paragraph ${i + 1}: ${p}`).join('\n\n')\<close>\<close>

fun numbered :: "nat \<Rightarrow> string list \<Rightarrow> string list" where
  "numbered i [] = []"
| "numbered i (p # ps) = (''Paragraph '' @ showNat (i + 1) @ '': '' @ p) # numbered (i + 1) ps"

fun joinWith :: "string \<Rightarrow> string list \<Rightarrow> string" where
  "joinWith sep [] = []"
| "joinWith sep [x] = x"
| "joinWith sep (x # y # xs) = x @ sep @ joinWith sep (y # xs)"

definition createContinuationPrompt :: "ContinueStoryRequest \<Rightarrow> string" where
  \<open>createContinuationPrompt request =
     (let storyContext = joinWith (newline @ newline) (numbered 0 (existingParagraphs request));
          paragraphCount = (case additionalParagraphs request of
                              Some n \<Rightarrow> if n = 0 then 2 else n
                            | None \<Rightarrow> 2)
      in ''Continue this '' @ genre' request @ '' story by adding '' @ showNat paragraphCount @ '' more paragraphs:'' @ newline
     @ newline
     @ ''Existing story:'' @ newline
     @ storyContext @ newline
     @ newline
     @ ''Continue the story with '' @ showNat paragraphCount @ '' new paragraphs that:'' @ newline
     @ ''- Follow naturally from the existing narrative'' @ newline
     @ ''- Maintain character consistency and story tone'' @ newline
     @ ''- Each paragraph should be '' @ showNat MIN_SENTENCES_PER_PARAGRAPH @ ''-'' @ showNat MAX_SENTENCES_PER_PARAGRAPH @ '' sentences long'' @ newline
     @ ''- Include vivid descriptions for visual imagery'' @ newline
     @ ''- Provide meaningful story progression'' @ newline
     @ newline
     @ ''Return JSON format:'' @ newline
     @ ''{'' @ newline
     @ ''  "paragraphs": ['' @ newline
     @ ''    {'' @ newline
     @ ''      "text": "New paragraph content",'' @ newline
     @ ''      "imagePrompt": "Detailed visual description for illustration"'' @ newline
     @ ''    }'' @ newline
     @ ''  ]'' @ newline
     @ ''}'' @ newline
     @ newline
     @ ''Continue the story:'')\<close>

text \<open>Genre tuning (lib/genre-config.ts): \<^verbatim>\<open>temperature\<close> and \<^verbatim>\<open>maxTokens\<close> of each genre;
  \<^verbatim>\<open>getGenreConfig\<close> is called with a valid genre, \<^verbatim>\<open>'fantasy'\<close> standing in for any other.\<close>

definition GENRE_CONFIGS :: "(string \<times> rat \<times> nat) list" where
  "GENRE_CONFIGS =
     [(''fantasy'', 8 / 10, 2500), (''mystery'', 6 / 10, 2200), (''sci-fi'', 75 / 100, 2400),
      (''romance'', 7 / 10, 2000), (''horror'', 85 / 100, 2200), (''adventure'', 75 / 100, 2300)]"

definition getGenreConfig :: "string \<Rightarrow> rat \<times> nat" where
  "getGenreConfig g = (case map_of GENRE_CONFIGS g of Some c \<Rightarrow> c | None \<Rightarrow> (8 / 10, 2500))"

text \<open>
  \<^verbatim>\<open>`${v}`\<close> for a value that came out of \<^verbatim>\<open>JSON.parse\<close>: the text of a primitive (that of
  a number is the platform's, the parameter \<open>numberText\<close>), the joined elements of an array
  (\<^verbatim>\<open>null\<close> printing as nothing), \<^verbatim>\<open>[object Object]\<close> for an object, and a TypeError
  for an object whose own property \<^verbatim>\<open>toString\<close> hides the inherited method.
\<close>

fun toStr :: "(number \<Rightarrow> string) \<Rightarrow> jsval \<Rightarrow> error + string"
  and joinElements :: "(number \<Rightarrow> string) \<Rightarrow> jsval list \<Rightarrow> error + string"
where
  "toStr numberText JUndefined = Inr ''undefined''"
| "toStr numberText JNull = Inr ''null''"
| "toStr numberText (JBool b) = Inr (if b then ''true'' else ''false'')"
| "toStr numberText (JNum n) = Inr (numberText n)"
| "toStr numberText (JStr s) = Inr s"
| "toStr numberText (JArr xs) = joinElements numberText xs"
| "toStr numberText (JObj fs) =
     (if map_of fs ''toString'' \<noteq> None then Inl TypeError else Inr ''[object Object]'')"
| "joinElements numberText [] = Inr []"
| "joinElements numberText (x # xs) =
     (case (if x = JNull \<or> x = JUndefined then Inr [] else toStr numberText x) of
        Inl e \<Rightarrow> Inl e
      | Inr s \<Rightarrow>
          if xs = [] then Inr s
          else (case joinElements numberText xs of
                  Inl e \<Rightarrow> Inl e
                | Inr rest \<Rightarrow> Inr (s @ '','' @ rest)))"

text \<open>The fallback structure built from the raw text:
  \<^verbatim>\<open>lines.map(text => ({ text: text || FALLBACK, imagePrompt: createFallbackPrompt(...) }))\<close>.\<close>

definition lineParagraph :: "string \<Rightarrow> string \<Rightarrow> jsval" where
  "lineParagraph g line =
     (let t = (if line \<noteq> [] then line else FALLBACK_PARAGRAPH)
      in JObj [(''text'', JStr t), (''imagePrompt'', JStr (createFallbackPrompt t g))])"

definition fallbackObject :: "string \<Rightarrow> jsval" where
  "fallbackObject g =
     JObj [(''text'', JStr FALLBACK_PARAGRAPH), (''imagePrompt'', JStr (fallbackImagePrompt g))]"

text \<open>\<^verbatim>\<open>v.length === 0\<close> for the value of \<^verbatim>\<open>continuationData.paragraphs\<close>.\<close>

fun lengthIsZero :: "jsval \<Rightarrow> bool" where
  "lengthIsZero (JArr xs) = (xs = [])"
| "lengthIsZero (JStr s) = (s = [])"
| "lengthIsZero (JObj fs) = (map_of fs ''length'' = Some (JNum (Finite 0)))"
| "lengthIsZero v = False"

text \<open>The two repairs of \<^verbatim>\<open>continuationData\<close>, giving the value of its \<^verbatim>\<open>paragraphs\<close>
  property on which \<^verbatim>\<open>map\<close> is then called.\<close>

definition continuationParagraphs :: "jsval \<Rightarrow> string \<Rightarrow> string \<Rightarrow> jsval" where
  "continuationParagraphs continuationData rawResponse g =
     (let given = (if truthy continuationData
                   then (case getProp continuationData ''paragraphs'' of
                           Inr v \<Rightarrow> v | Inl e \<Rightarrow> JUndefined)
                   else JUndefined);
          ps = (if \<not> truthy continuationData \<or> \<not> truthy given
                then JArr (map (lineParagraph g) (nonBlankLines rawResponse))
                else given)
      in if \<not> truthy ps \<or> lengthIsZero ps then JArr [fallbackObject g] else ps)"

definition paragraphObject :: "nat \<Rightarrow> jsval \<Rightarrow> string \<Rightarrow> jsval" where
  "paragraphObject i t ip =
     JObj [(''id'', JNum (Finite (of_nat i))), (''text'', t), (''imagePrompt'', JStr ip)]"

text \<open>\<^verbatim>\<open>paragraphs.map((p, index) => ({ id: startingId + index, text: p.text, imagePrompt:
  enhancePrompt(p.imagePrompt, genre) }))\<close>, from the element at \<open>index\<close> on.\<close>

fun mapParagraphs ::
  "(number \<Rightarrow> string) \<Rightarrow> string \<Rightarrow> nat \<Rightarrow> nat \<Rightarrow> jsval list \<Rightarrow> error + jsval list" where
  "mapParagraphs numberText g startingId index [] = Inr []"
| "mapParagraphs numberText g startingId index (p # ps) =
     (case getProp p ''text'' of
        Inl e \<Rightarrow> Inl e
      | Inr t \<Rightarrow>
          (case getProp p ''imagePrompt'' of
             Inl e \<Rightarrow> Inl e
           | Inr ip \<Rightarrow>
               (case toStr numberText ip of
                  Inl e \<Rightarrow> Inl e
                | Inr s \<Rightarrow>
                    (case mapParagraphs numberText g startingId (index + 1) ps of
                       Inl e \<Rightarrow> Inl e
                     | Inr rest \<Rightarrow>
                         Inr (paragraphObject (startingId + index) t (enhancePrompt s g)
                              # rest)))))"

text \<open>
  The handler. \<open>provider\<close> is what \<^verbatim>\<open>getDefaultLLMProvider()\<close> gives (or throws), a provider
  being its \<^verbatim>\<open>generateText(prompt, { temperature, maxTokens })\<close>. Whatever is thrown
  inside is caught by \<^verbatim>\<open>ErrorHandler.withErrorHandling\<close> and answered with an error
  response (\<open>Failed\<close>).
\<close>

datatype continueResponse = BadRequest string | NewParagraphs "jsval list" | Failed error

type_synonym llmProvider = "string \<Rightarrow> rat \<Rightarrow> nat \<Rightarrow> error + string"

definition POST ::
  "(error + llmProvider) \<Rightarrow> (string \<Rightarrow> error + jsval) \<Rightarrow> (number \<Rightarrow> string)
     \<Rightarrow> ContinueStoryRequest \<Rightarrow> continueResponse" where
  "POST provider JSON_parse numberText continueRequest =
     (if storyId continueRequest = [] \<or> genre' continueRequest = []
      then BadRequest INVALID_GENRE
      else
        (case provider of
           Inl e \<Rightarrow> Failed e
         | Inr generateText \<Rightarrow>
             (let prompt = createContinuationPrompt continueRequest;
                  g = genre' continueRequest;
                  genreConfig = getGenreConfig (if isValidGenre g then g else ''fantasy'')
              in case generateText prompt (fst genreConfig) (min (snd genreConfig) 1200) of
                   Inl e \<Rightarrow> Failed e
                 | Inr rawResponse \<Rightarrow>
                     (case parseWithFallback JSON_parse rawResponse JUndefined of
                        Inl e \<Rightarrow> Failed e
                      | Inr continuationData \<Rightarrow>
                          (case continuationParagraphs continuationData rawResponse g of
                             JArr ps \<Rightarrow>
                               (let startingId = length (existingParagraphs continueRequest) + 1
                                in case mapParagraphs numberText g startingId 0 ps of
                                     Inl e \<Rightarrow> Failed e
                                   | Inr newParagraphs \<Rightarrow> NewParagraphs newParagraphs)
                           | other \<Rightarrow> Failed TypeError)))))"

text \<open>The ids of the returned paragraphs.\<close>

definition idsOf :: "jsval list \<Rightarrow> jsval list" where
  "idsOf ps = map (\<lambda>p. readProp p ''id'') ps"

section \<open>The placeholder image provider (lib/image-factory.ts, class MockImageProvider)\<close>











section \<open>Providers (lib/llm-factory.ts, lib/image-factory.ts)\<close>

text \<open>
  \<^verbatim>\<open>process.env\<close> is a map from names to strings. \<^verbatim>\<open>process.env.X || ''\<close> is the value of
  \<open>X\<close>, or the empty string when \<open>X\<close> is unset (or empty).
\<close>

type_synonym env = "string \<rightharpoonup> string"

definition envOr :: "env \<Rightarrow> string \<Rightarrow> string \<Rightarrow> string" where
  \<comment> \<open>\<^verbatim>\<open>process.env.X || dflt\<close>\<close>
  "envOr e name dflt = (case e name of Some v \<Rightarrow> if v \<noteq> [] then v else dflt | None \<Rightarrow> dflt)"

text \<open>The constructor argument \<^verbatim>\<open>{ model?, temperature?, maxTokens? }\<close>.\<close>

record llmOptions =
  model :: "string option"
  temperature :: "rat option"
  maxTokens :: "nat option"

definition DEFAULT_TEMPERATURE :: rat where "DEFAULT_TEMPERATURE = 7 / 10"
definition DEFAULT_MAX_TOKENS :: nat where "DEFAULT_MAX_TOKENS = 2000"

definition orString :: "string option \<Rightarrow> string \<Rightarrow> string" where
  \<comment> \<open>\<^verbatim>\<open>config.model || dflt\<close>\<close>
  "orString v dflt = (case v of Some s \<Rightarrow> if s \<noteq> [] then s else dflt | None \<Rightarrow> dflt)"

definition orTemperature :: "rat option \<Rightarrow> rat" where
  \<comment> \<open>\<^verbatim>\<open>config.temperature || STORY_CONSTANTS.DEFAULT_TEMPERATURE\<close>\<close>
  "orTemperature v = (case v of Some t \<Rightarrow> if t \<noteq> 0 then t else DEFAULT_TEMPERATURE
                      | None \<Rightarrow> DEFAULT_TEMPERATURE)"

definition orMaxTokens :: "nat option \<Rightarrow> nat" where
  \<comment> \<open>\<^verbatim>\<open>config.maxTokens || STORY_CONSTANTS.DEFAULT_MAX_TOKENS\<close>\<close>
  "orMaxTokens v = (case v of Some n \<Rightarrow> if n \<noteq> 0 then n else DEFAULT_MAX_TOKENS
                    | None \<Rightarrow> DEFAULT_MAX_TOKENS)"

text \<open>The fields of each provider object, in the order of their declaration. For the two
  Gemini providers the SDK client is represented by the key it was built with.\<close>

datatype DeepInfraProvider =
  DeepInfraProvider (dBaseURL: string) (dModel: string) (dApiKey: string)
    (dTemperature: rat) (dMaxTokens: nat)

datatype GeminiProvider =
  GeminiProvider (gClient: string) (gModel: string) (gTemperature: rat) (gMaxTokens: nat)

datatype ReplicateImageProvider = ReplicateImageProvider (rApiKey: string) (rModel: string)

datatype GeminiImageProvider = GeminiImageProvider (giClient: string) (giModel: string)

text \<open>The constructors. A constructor that can throw returns a sum; the two that have no
  \<^verbatim>\<open>throw\<close> return the object.\<close>

definition newDeepInfraProvider :: "env \<Rightarrow> llmOptions \<Rightarrow> DeepInfraProvider" where
  "newDeepInfraProvider e config =
     DeepInfraProvider ''https://api.deepinfra.com/v1/inference''
       (orString (model config) ''meta-llama/Llama-3.1-70B-Instruct'')
       (envOr e ''DEEPINFRA_API_KEY'' [])
       (orTemperature (temperature config)) (orMaxTokens (maxTokens config))"

definition geminiKey :: "env \<Rightarrow> string" where
  \<comment> \<open>\<^verbatim>\<open>process.env.GEMINI_API_KEY || process.env.GOOGLE_API_KEY || ''\<close>\<close>
  "geminiKey e = envOr e ''GEMINI_API_KEY'' (envOr e ''GOOGLE_API_KEY'' [])"

definition newGeminiProvider :: "env \<Rightarrow> llmOptions \<Rightarrow> error + GeminiProvider" where
  "newGeminiProvider e config =
     (let apiKey = geminiKey e
      in if apiKey = [] then Inl (Error ''Gemini API key not configured'')
         else Inr (GeminiProvider apiKey (orString (model config) ''gemini-1.5-pro'')
                     (orTemperature (temperature config)) (orMaxTokens (maxTokens config))))"

definition newReplicateImageProvider :: "env \<Rightarrow> string option \<Rightarrow> ReplicateImageProvider" where
  "newReplicateImageProvider e m =
     ReplicateImageProvider (envOr e ''REPLICATE_API_TOKEN'' [])
       (orString m ''black-forest-labs/flux-schnell'')"

definition newGeminiImageProvider :: "env \<Rightarrow> string option \<Rightarrow> error + GeminiImageProvider" where
  "newGeminiImageProvider e m =
     (let apiKey = geminiKey e
      in if apiKey = [] then Inl (Error ''Gemini API key not configured'')
         else Inr (GeminiImageProvider apiKey
                     (orString m ''gemini-2.0-flash-preview-image-generation'')))"

text \<open>
  The calls of the two providers that check their key late. What follows the check is an
  exchange with the remote service; \<open>exchange\<close> stands for it and for the reading of its
  answer.
\<close>

definition deepInfraGenerateText ::
  "(DeepInfraProvider \<Rightarrow> string \<Rightarrow> error + string) \<Rightarrow> DeepInfraProvider \<Rightarrow> string
     \<Rightarrow> error + string" where
  "deepInfraGenerateText exchange this prompt =
     (if dApiKey this = [] then Inl (Error ''DeepInfra API key not configured'')
      else exchange this prompt)"

definition deepInfraCheckHealth :: "DeepInfraProvider \<Rightarrow> bool" where
  "deepInfraCheckHealth this = (dApiKey this \<noteq> [])"

definition replicateGenerateImage ::
  "(ReplicateImageProvider \<Rightarrow> string \<Rightarrow> error + string) \<Rightarrow> ReplicateImageProvider \<Rightarrow> string
     \<Rightarrow> error + string" where
  "replicateGenerateImage exchange this prompt =
     (if rApiKey this = [] then Inl (Error ''Replicate API key not configured'')
      else exchange this prompt)"

definition replicateCheckHealth :: "ReplicateImageProvider \<Rightarrow> bool" where
  "replicateCheckHealth this = (rApiKey this \<noteq> [])"

text \<open>A credential is missing when the variable is unset or empty.\<close>

definition missing :: "env \<Rightarrow> string \<Rightarrow> bool" where
  "missing e name = (e name = None \<or> e name = Some [])"

section \<open>The platform's JSON.parse, for concrete runs\<close>

text \<open>
  \<^verbatim>\<open>JSON.parse\<close> belongs to the platform, not to the repository: the functions above take it
  as a parameter, and the general theorems hold for every such function. To run the code on
  concrete responses, \<open>JSON_parse\<close> below reads the JSON grammar (ECMA-404): objects, arrays,
  strings with their escapes, numbers, \<^verbatim>\<open>true\<close>, \<^verbatim>\<open>false\<close>, \<^verbatim>\<open>null\<close>, any of them between
  JSON white space; anything else is a \<^verbatim>\<open>SyntaxError\<close>. Numbers are read exactly (no
  rounding to a double), and a \<^verbatim>\<open>\uXXXX\<close> escape above U+00FF is outside the strings of
  this model and is refused. The recursion is driven by a counter that starts at the
  length of the text plus one: every value and every member takes at least one character.
\<close>

definition isJsonSpace :: "char \<Rightarrow> bool" where
  "isJsonSpace c = (c = CHR 0x20 \<or> c = CHR 0x09 \<or> c = CHR 0x0A \<or> c = CHR 0x0D)"

definition skipWs :: "string \<Rightarrow> string" where
  "skipWs s = dropWhile isJsonSpace s"

definition isDigit :: "char \<Rightarrow> bool" where
  "isDigit c = (let n = of_char c :: nat in 48 \<le> n \<and> n \<le> 57)"

definition digitVal :: "char \<Rightarrow> nat" where
  "digitVal c = of_char c - 48"

definition natOfDigits :: "string \<Rightarrow> nat" where
  "natOfDigits ds = foldl (\<lambda>acc d. 10 * acc + digitVal d) 0 ds"

definition hexVal :: "char \<Rightarrow> nat option" where
  "hexVal c =
     (let n = of_char c :: nat
      in if 48 \<le> n \<and> n \<le> 57 then Some (n - 48)
         else if 65 \<le> n \<and> n \<le> 70 then Some (n - 55)
         else if 97 \<le> n \<and> n \<le> 102 then Some (n - 87)
         else None)"

definition unescape :: "char \<Rightarrow> char option" where
  "unescape e =
     (if e = CHR 0x22 then Some (CHR 0x22)
      else if e = CHR 0x5C then Some (CHR 0x5C)
      else if e = CHR ''/'' then Some (CHR ''/'')
      else if e = CHR ''b'' then Some (CHR 0x08)
      else if e = CHR ''f'' then Some (CHR 0x0C)
      else if e = CHR ''n'' then Some (CHR 0x0A)
      else if e = CHR ''r'' then Some (CHR 0x0D)
      else if e = CHR ''t'' then Some (CHR 0x09)
      else None)"

text \<open>The characters of a string after its opening quote, up to the closing one.\<close>

fun parseChars :: "string \<Rightarrow> (string \<times> string) option" where
  "parseChars [] = None"
| "parseChars (c # r) =
     (if c = CHR 0x22 then Some ([], r)
      else if c = CHR 0x5C then
        (case r of
           [] \<Rightarrow> None
         | e # r' \<Rightarrow>
             if e = CHR ''u'' then
               (case map hexVal (take 4 r') of
                  [Some a, Some b, Some x, Some y] \<Rightarrow>
                    if a = 0 \<and> b = 0
                    then map_option (\<lambda>(cs, rest). (char_of (16 * x + y) # cs, rest))
                           (parseChars (drop 4 r'))
                    else None
                | _ \<Rightarrow> None)
             else (case unescape e of
                     None \<Rightarrow> None
                   | Some ch \<Rightarrow> map_option (\<lambda>(cs, rest). (ch # cs, rest)) (parseChars r')))
      else if (of_char c :: nat) < 32 then None
      else map_option (\<lambda>(cs, rest). (c # cs, rest)) (parseChars r))"

definition parseString :: "string \<Rightarrow> (string \<times> string) option" where
  "parseString s = (case s of [] \<Rightarrow> None | c # r \<Rightarrow> if c = CHR 0x22 then parseChars r else None)"

text \<open>A number: \<^verbatim>\<open>-? (0 | [1-9][0-9]*) (. [0-9]+)? ([eE] [+-]? [0-9]+)?\<close>.\<close>

definition parseNumber :: "string \<Rightarrow> (jsval \<times> string) option" where
  "parseNumber s =
     (let neg = (s \<noteq> [] \<and> hd s = CHR ''-'');
          s1 = (if neg then tl s else s);
          ip = (if s1 \<noteq> [] \<and> hd s1 = CHR ''0'' then ''0'' else takeWhile isDigit s1);
          s2 = drop (length ip) s1;
          hasFrac = (s2 \<noteq> [] \<and> hd s2 = CHR ''.'');
          fp = (if hasFrac then takeWhile isDigit (tl s2) else []);
          s3 = (if hasFrac then dropWhile isDigit (tl s2) else s2);
          hasExp = (s3 \<noteq> [] \<and> (hd s3 = CHR ''e'' \<or> hd s3 = CHR ''E''));
          s4 = (if hasExp then tl s3 else s3);
          eneg = (hasExp \<and> s4 \<noteq> [] \<and> hd s4 = CHR ''-'');
          s5 = (if hasExp \<and> s4 \<noteq> [] \<and> (hd s4 = CHR ''-'' \<or> hd s4 = CHR ''+'') then tl s4 else s4);
          ep = (if hasExp then takeWhile isDigit s5 else []);
          s6 = (if hasExp then dropWhile isDigit s5 else s3);
          mant = (of_nat (natOfDigits (ip @ fp)) :: rat) / 10 ^ length fp;
          scaled = (if eneg then mant / 10 ^ natOfDigits ep else mant * 10 ^ natOfDigits ep)
      in if ip = [] \<or> (hasFrac \<and> fp = []) \<or> (hasExp \<and> ep = []) then None
         else Some (JNum (Finite (if neg then - scaled else scaled)), s6))"

text \<open>\<^verbatim>\<open>JSON.parse\<close> keeps the last value of a repeated key, at the place of the first.\<close>

fun setProp :: "(string \<times> jsval) list \<Rightarrow> string \<Rightarrow> jsval \<Rightarrow> (string \<times> jsval) list" where
  "setProp [] k v = [(k, v)]"
| "setProp ((k', v') # fs) k v = (if k' = k then (k, v) # fs else (k', v') # setProp fs k v)"

fun parseValue :: "nat \<Rightarrow> string \<Rightarrow> (jsval \<times> string) option"
  and parseItems :: "nat \<Rightarrow> jsval list \<Rightarrow> string \<Rightarrow> (jsval list \<times> string) option"
  and parseFields ::
    "nat \<Rightarrow> (string \<times> jsval) list \<Rightarrow> string \<Rightarrow> ((string \<times> jsval) list \<times> string) option"
where
  "parseValue 0 s = None"
| "parseValue (Suc n) s =
     (case skipWs s of
        [] \<Rightarrow> None
      | c # r \<Rightarrow>
          if c = CHR ''{'' then
            (case skipWs r of
               [] \<Rightarrow> None
             | d # r' \<Rightarrow>
                 if d = CHR ''}'' then Some (JObj [], r')
                 else map_option (\<lambda>(fs, rest). (JObj fs, rest)) (parseFields n [] (d # r')))
          else if c = CHR ''['' then
            (case skipWs r of
               [] \<Rightarrow> None
             | d # r' \<Rightarrow>
                 if d = CHR '']'' then Some (JArr [], r')
                 else map_option (\<lambda>(xs, rest). (JArr xs, rest)) (parseItems n [] (d # r')))
          else if c = CHR 0x22 then
            map_option (\<lambda>(cs, rest). (JStr cs, rest)) (parseChars r)
          else if startsWith (c # r) ''true'' then Some (JBool True, drop 4 (c # r))
          else if startsWith (c # r) ''false'' then Some (JBool False, drop 5 (c # r))
          else if startsWith (c # r) ''null'' then Some (JNull, drop 4 (c # r))
          else parseNumber (c # r))"
| "parseItems 0 acc s = None"
| "parseItems (Suc n) acc s =
     (case parseValue n s of
        None \<Rightarrow> None
      | Some (v, r) \<Rightarrow>
          (case skipWs r of
             [] \<Rightarrow> None
           | c # r' \<Rightarrow>
               if c = CHR '','' then parseItems n (acc @ [v]) r'
               else if c = CHR '']'' then Some (acc @ [v], r')
               else None))"
| "parseFields 0 acc s = None"
| "parseFields (Suc n) acc s =
     (case parseString (skipWs s) of
        None \<Rightarrow> None
      | Some (k, r) \<Rightarrow>
          (case skipWs r of
             [] \<Rightarrow> None
           | c # r1 \<Rightarrow>
               if c \<noteq> CHR '':'' then None
               else (case parseValue n r1 of
                       None \<Rightarrow> None
                     | Some (v, r2) \<Rightarrow>
                         (case skipWs r2 of
                            [] \<Rightarrow> None
                          | d # r3 \<Rightarrow>
                              if d = CHR '','' then parseFields n (setProp acc k v) r3
                              else if d = CHR ''}'' then Some (setProp acc k v, r3)
                              else None))))"

definition JSON_parse :: "string \<Rightarrow> error + jsval" where
  "JSON_parse s =
     (case parseValue (Suc (length s)) s of
        Some (v, rest) \<Rightarrow> if skipWs rest = [] then Inr v else Inl SyntaxError
      | None \<Rightarrow> Inl SyntaxError)"

section \<open>The plain-text path, described by its result\<close>

text \<open>
  The definitions of this section are not translations of code: they say what the
  plain-text path computes, in terms of the lines of the response, and the theorems below
  show that the code computes exactly that.
\<close>



text \<open>The text of a paragraph made of the lines \<open>g\<close>: each line trimmed, single spaces
  between them.\<close>

fun joinWords :: "string list \<Rightarrow> string" where
  "joinWords [] = []"
| "joinWords [w] = w"
| "joinWords (w # v # ws) = w @ '' '' @ joinWords (v # ws)"

definition joinLines :: "string list \<Rightarrow> string" where
  "joinLines g = joinWords (map trim g)"

text \<open>
  The lines cut into groups, one per paragraph; \<open>cur\<close> holds the lines of the group being
  built. A group ends with a line that itself ends in \<^verbatim>\<open>.\<close>, \<^verbatim>\<open>!\<close> or \<^verbatim>\<open>?\<close> and brings
  the joined text above the minimum length, or before a blank line, or with the last line.
\<close>

fun groupLines :: "string list \<Rightarrow> string list \<Rightarrow> string list list" where
  "groupLines cur [] = (if cur = [] then [] else [cur])"
| "groupLines cur (l # ls) =
     (if trim l = [] then (if cur = [] then groupLines [] ls else cur # groupLines [] ls)
      else if endsSentence l \<and> length (joinLines (cur @ [l])) > MIN_PARAGRAPH_LENGTH
           then (cur @ [l]) # groupLines [] ls
           else groupLines (cur @ [l]) ls)"

definition fallbackParagraph :: "string \<Rightarrow> storyParagraph" where
  "fallbackParagraph g = \<lparr>text = FALLBACK_PARAGRAPH, imagePrompt = fallbackImagePrompt g\<rparr>"

text \<open>Exactly \<open>n\<close> paragraphs: the first \<open>n\<close> of those found, then fallback paragraphs.\<close>

definition reconcile :: "nat \<Rightarrow> string \<Rightarrow> storyParagraph list \<Rightarrow> storyParagraph list" where
  "reconcile n g ps = take n ps @ replicate (n - length ps) (fallbackParagraph g)"


text \<open>What \<^verbatim>\<open>extractParagraphs\<close> does with the loop's result: \<^verbatim>\<open>if (currentParagraph)
  paragraphs.push(...)\<close>.\<close>

definition finish :: "string \<Rightarrow> storyParagraph list \<times> string \<Rightarrow> storyParagraph list" where
  "finish g r = (if snd r \<noteq> [] then fst r @ [newParagraph (snd r) g] else fst r)"

section \<open>Rate limiting (lib/errors.ts, class RateLimiter)\<close>

text \<open>
  \<^verbatim>\<open>RateLimiter.requests\<close> is a process-wide \<^verbatim>\<open>Map<string, {count, resetTime}>\<close>.
  The model passes the map explicitly: \<^verbatim>\<open>checkRateLimit\<close> takes the store and the value of
  \<^verbatim>\<open>Date.now()\<close> (milliseconds, an integer) and returns its result with the updated store.
\<close>

record entry =
  count :: nat
  resetTime :: int

type_synonym requests = "string \<rightharpoonup> entry"

text \<open>The returned object \<^verbatim>\<open>{ allowed, resetTime }\<close>; the second field is named
  \<open>resetAt\<close> here, since the entry's field already owns the name.\<close>

record verdict =
  allowed :: bool
  resetAt :: int

definition checkRateLimit ::
  "requests \<Rightarrow> string \<Rightarrow> nat \<Rightarrow> int \<Rightarrow> int \<Rightarrow> verdict \<times> requests" where
  "checkRateLimit rq identifier maxRequests windowMs now =
     (case rq identifier of
        None \<Rightarrow>
          (\<lparr>allowed = True, resetAt = now + windowMs\<rparr>,
           rq(identifier \<mapsto> \<lparr>count = 1, resetTime = now + windowMs\<rparr>))
      | Some current \<Rightarrow>
          if now > resetTime current then
            (\<lparr>allowed = True, resetAt = now + windowMs\<rparr>,
             rq(identifier \<mapsto> \<lparr>count = 1, resetTime = now + windowMs\<rparr>))
          else if count current \<ge> maxRequests then
            (\<lparr>allowed = False, resetAt = resetTime current\<rparr>, rq)
          else
            (\<lparr>allowed = True, resetAt = resetTime current\<rparr>,
             rq(identifier \<mapsto> current\<lparr>count := count current + 1\<rparr>)))"







section \<open>Example inputs\<close>

text \<open>Concrete requests and responses on which the theorems are run.\<close>

definition fantasy3 :: request where
  "fantasy3 = \<lparr>genre = ''fantasy'', paragraphs = 3\<rparr>"

definition storyValue :: jsval where
  "storyValue =
     JObj [(''preface'', JStr ''A tale''),
           (''paragraphs'',
            JArr [JObj [(''text'', JStr ''Once.''), (''imagePrompt'', JStr ''A castle'')],
                  JObj [(''text'', JStr ''Then.''), (''imagePrompt'', JStr ''A forest'')],
                  JObj [(''text'', JStr ''End.''), (''imagePrompt'', JStr ''A feast'')]])]"

definition storyJson :: string where
  \<open>storyJson =
     ''{"preface":"A tale","paragraphs":[{"text":"Once.","imagePrompt":"A castle"},''
     @ ''{"text":"Then.","imagePrompt":"A forest"},{"text":"End.","imagePrompt":"A feast"}]}''\<close>








text \<open>A continue request with three existing paragraphs, and a provider that answers with
  two new ones.\<close>

definition continueThree :: ContinueStoryRequest where
  "continueThree =
     \<lparr>storyId = ''story-1'', existingParagraphs = [''One.'', ''Two.'', ''Three.''],
      genre' = ''fantasy'', additionalParagraphs = None\<rparr>"

definition twoMore :: "error + llmProvider" where
  \<open>twoMore =
     Inr (\<lambda>prompt temperature maxTokens.
            Inr (''{"paragraphs":[{"text":"Four.","imagePrompt":"A gate"},''
                 @ ''{"text":"Five.","imagePrompt":"A hall"}]}''))\<close>

section \<open>Proofs: strings\<close>

lemma dropWhile_all: "list_all P xs \<Longrightarrow> dropWhile P (xs @ ys) = dropWhile P ys"
  by (induction xs) auto

lemma dropWhile_stop: "ys \<noteq> [] \<Longrightarrow> \<not> P (hd ys) \<Longrightarrow> dropWhile P ys = ys"
  by (cases ys) auto

lemma trim_wrapped:
  assumes "list_all isWhiteSpace w1" and "list_all isWhiteSpace w2"
    and "j \<noteq> []" and "\<not> isWhiteSpace (hd j)" and "\<not> isWhiteSpace (last j)"
  shows "trim (w1 @ j @ w2) = j"
proof -
  have "trimStart (w1 @ j @ w2) = j @ w2"
    using assms by (simp add: trimStart_def dropWhile_all dropWhile_stop)
  moreover have "dropWhile isWhiteSpace (rev w2 @ rev j) = rev j"
    using assms by (simp add: dropWhile_all dropWhile_stop hd_rev)
  ultimately show ?thesis
    by (simp add: trim_def trimEnd_def)
qed

lemma matchBraces_wrapped:
  assumes "CHR ''{'' \<notin> set a" and "CHR ''}'' \<notin> set b"
    and "j \<noteq> []" and "hd j = CHR ''{''" and "last j = CHR ''}''"
  shows "matchBraces (a @ j @ b) = Some j"
proof -
  have a: "list_all (\<lambda>c. c \<noteq> CHR ''{'') a"
    using assms(1) by (auto simp: list_all_iff)
  have b: "list_all (\<lambda>c. c \<noteq> CHR ''}'') (rev b)"
    using assms(2) by (auto simp: list_all_iff)
  have "dropWhile (\<lambda>c. c \<noteq> CHR ''{'') (a @ j @ b) = j @ b"
    using a assms(3,4) by (simp add: dropWhile_all dropWhile_stop)
  moreover have "CHR ''}'' \<in> set (j @ b)"
    using assms(3,5) last_in_set [of j] by auto
  moreover have "dropWhile (\<lambda>c. c \<noteq> CHR ''}'') (rev b @ rev j) = rev j"
    using b assms(3,5) by (simp add: dropWhile_all dropWhile_stop hd_rev)
  ultimately show ?thesis
    by (simp add: matchBraces_def Let_def)
qed

section \<open>Proofs: the plain-text path\<close>

lemma padParagraphs_eq:
  "padParagraphs req ps =
     ps @ replicate (paragraphs req - length ps) (fallbackParagraph (genre req))"
proof (induction req ps rule: padParagraphs.induct)
  case (1 req ps)
  show ?case
  proof (cases "length ps < paragraphs req")
    case True
    then have "paragraphs req - length ps = Suc (paragraphs req - Suc (length ps))"
      by simp
    with True "1.IH" show ?thesis
      by (subst padParagraphs.simps) (simp add: replicate_app_Cons_same fallbackParagraph_def)
  next
    case False
    then show ?thesis
      by (subst padParagraphs.simps) simp
  qed
qed

lemma take_padded: "take n (ps @ replicate (n - length ps) x) = take n ps @ replicate (n - length ps) x"
  by simp




lemma joinWords_snoc:
  "joinWords (ws @ [w]) = joinWords ws @ (if ws \<noteq> [] then '' '' else []) @ w"
  by (induction ws rule: joinWords.induct) simp_all

lemma joinWords_empty: "list_all (\<lambda>w. w \<noteq> []) ws \<Longrightarrow> joinWords ws = [] \<longleftrightarrow> ws = []"
  by (induction ws rule: joinWords.induct) simp_all

lemma joinLines_snoc:
  "joinLines (cur @ [l]) = joinLines cur @ (if cur \<noteq> [] then '' '' else []) @ trim l"
  by (simp add: joinLines_def joinWords_snoc)

lemma joinLines_empty:
  "list_all (\<lambda>l. trim l \<noteq> []) cur \<Longrightarrow> joinLines cur = [] \<longleftrightarrow> cur = []"
  using joinWords_empty [of "map trim cur"] by (simp add: joinLines_def list_all_iff)

lemma accumulate_groups:
  assumes "list_all (\<lambda>l. trim l \<noteq> []) cur"
  shows "finish g (accumulate g ps (joinLines cur) lines)
           = ps @ map (\<lambda>grp. newParagraph (joinLines grp) g) (groupLines cur lines)"
  using assms
proof (induction lines arbitrary: ps cur)
  case Nil
  then show ?case
    by (simp add: finish_def joinLines_empty)
next
  case (Cons l lines)
  have e: "joinLines cur = [] \<longleftrightarrow> cur = []"
    using Cons.prems by (rule joinLines_empty)
  have nil: "joinLines [] = []" by (simp add: joinLines_def)
  have IH0: "finish g (accumulate g qs [] lines)
      = qs @ map (\<lambda>grp. newParagraph (joinLines grp) g) (groupLines [] lines)" for qs
    using Cons.IH [of "[]" qs] by (simp add: nil)
  show ?case
  proof (cases "trim l = []")
    case True
    then show ?thesis
      using e IH0 by (simp add: nil)
  next
    case False
    then have ok: "list_all (\<lambda>l. trim l \<noteq> []) (cur @ [l])"
      using Cons.prems by simp
    have j: "joinLines cur @ (if joinLines cur \<noteq> [] then '' '' else []) @ trim l
               = joinLines (cur @ [l])"
      using e by (simp add: joinLines_snoc)
    show ?thesis
    proof (cases "endsSentence l \<and> length (joinLines (cur @ [l])) > MIN_PARAGRAPH_LENGTH")
      case True
      then show ?thesis
        using False IH0 [of "ps @ [newParagraph (joinLines (cur @ [l])) g]"]
        by (simp add: j Let_def)
    next
      case no: False
      have "finish g (accumulate g ps (joinLines (cur @ [l])) lines)
          = ps @ map (\<lambda>grp. newParagraph (joinLines grp) g) (groupLines (cur @ [l]) lines)"
        using ok by (rule Cons.IH)
      then show ?thesis
        using False no by (auto simp: j Let_def)
    qed
  qed
qed

lemma extractParagraphs_eq:
  "extractParagraphs lines req =
     reconcile (paragraphs req) (genre req)
       (map (\<lambda>grp. newParagraph (joinLines grp) (genre req)) (groupLines [] lines))"
proof -
  obtain ps cur where acc: "accumulate (genre req) [] [] lines = (ps, cur)"
    by (cases "accumulate (genre req) [] [] lines")
  have "finish (genre req) (accumulate (genre req) [] (joinLines []) lines)
          = [] @ map (\<lambda>grp. newParagraph (joinLines grp) (genre req)) (groupLines [] lines)"
    by (rule accumulate_groups) simp
  moreover have "joinLines [] = []"
    by (simp add: joinLines_def)
  ultimately have f: "(if cur \<noteq> [] then ps @ [newParagraph cur (genre req)] else ps)
          = map (\<lambda>grp. newParagraph (joinLines grp) (genre req)) (groupLines [] lines)"
    using acc by (auto simp: finish_def split: if_splits)
  show ?thesis
    unfolding extractParagraphs_def acc Let_def prod.case f padParagraphs_eq reconcile_def
    by simp
qed


lemma reconcile_length: "length (reconcile n g ps) = n"
  by (simp add: reconcile_def)


lemma paragraphsOf_storyObject: "length (paragraphsOf (storyObject p ps)) = length ps"
  by (simp add: paragraphsOf_def storyObject_def)

lemma plain_text_count:
  "length (paragraphsOf (parseAsPlainText raw req)) = paragraphs req"
proof -
  obtain p ls where f: "findPreface (nonBlankLines raw) (nonBlankLines raw) = (p, ls)"
    by (cases "findPreface (nonBlankLines raw) (nonBlankLines raw)")
  show ?thesis
    unfolding parseAsPlainText_def Let_def f prod.case
    by (simp add: paragraphsOf_storyObject extractParagraphs_eq reconcile_length)
qed

lemma json_path_unreconciled:
  assumes "JSON_parse (trim raw) = Inr S" and "validateStoryStructure S = Inr True"
  shows "parseStoryResponse JSON_parse raw req = Inr S"
  using assms by (simp add: parseStoryResponse_def parseWithFallback_def)

text \<open>
  C1 (the code departs from the claim). The plain-text path always yields the requested
  number of paragraphs (\<open>plain_text_count\<close>), but a response that parses to a story-shaped
  object is returned as it is, whatever the number of its paragraphs
  (\<open>json_path_unreconciled\<close>). Here the request asks for three paragraphs and the returned
  story has none.
\<close>

theorem json_path_count_not_reconciled:
  \<open>parseStoryResponse JSON_parse ''{"preface":"p","paragraphs":[]}''
      \<lparr>genre = ''fantasy'', paragraphs = 3\<rparr>
    = Inr (JObj [(''preface'', JStr ''p''), (''paragraphs'', JArr [])])\<close>
  by code_simp

lemma not_ws_brace: "\<not> isWhiteSpace (CHR ''{'')" "\<not> isWhiteSpace (CHR ''}'')"
  by (simp_all add: isWhiteSpace_def)

lemma ws_no_brace:
  assumes "list_all isWhiteSpace w"
  shows "CHR ''{'' \<notin> set w" and "CHR ''}'' \<notin> set w"
  using assms not_ws_brace by (auto simp: list_all_iff)

lemma fence_no_brace:
  "CHR ''{'' \<notin> set fenceOpen" "CHR ''}'' \<notin> set fenceClose"
  by (simp_all add: fenceOpen_def fenceClose_def)

lemma validateStoryStructure_obj:
  "validateStoryStructure S = Inr True \<Longrightarrow> \<exists>fs. S = JObj fs"
  by (cases S) (auto simp: validateStoryStructure_def split: if_splits)

text \<open>
  C2, amended. Let \<open>j\<close> be a JSON text of the story-shaped value \<open>S\<close> (it parses to \<open>S\<close>,
  starts with \<^verbatim>\<open>{\<close> and ends with \<^verbatim>\<open>}\<close>). Then \<^verbatim>\<open>parseStoryResponse\<close> returns \<open>S\<close>
  unchanged on \<open>j\<close> surrounded by white space, and on \<open>j\<close> inside a markdown code fence with
  prose before and after, provided the prose before the fence has no \<^verbatim>\<open>{\<close>, the prose after
  it has no \<^verbatim>\<open>}\<close>, and the fenced response as a whole is not JSON.
\<close>

theorem parseStoryResponse_recovers_story:
  assumes ser: "JSON_parse j = Inr S"
    and shape: "validateStoryStructure S = Inr True"
    and obj: "j \<noteq> []" "hd j = CHR ''{''" "last j = CHR ''}''"
    and ws: "list_all isWhiteSpace w1" "list_all isWhiteSpace w2"
    and whole: "isl (JSON_parse (trim (pre @ fenceOpen @ w1 @ j @ w2 @ fenceClose @ post)))"
    and pre: "CHR ''{'' \<notin> set pre" and post: "CHR ''}'' \<notin> set post"
  shows "parseStoryResponse JSON_parse (w1 @ j @ w2) req = Inr S
       \<and> parseStoryResponse JSON_parse (pre @ fenceOpen @ w1 @ j @ w2 @ fenceClose @ post) req
           = Inr S"
proof
  have "trim (w1 @ j @ w2) = j"
    using obj ws by (intro trim_wrapped) (simp_all add: not_ws_brace)
  then show "parseStoryResponse JSON_parse (w1 @ j @ w2) req = Inr S"
    using ser shape by (simp add: json_path_unreconciled)
next
  let ?raw = "pre @ fenceOpen @ w1 @ j @ w2 @ fenceClose @ post"
  have nb1: "CHR ''{'' \<notin> set (pre @ fenceOpen @ w1)"
    using pre ws_no_brace(1) [OF ws(1)] fence_no_brace(1) by simp
  have nb2: "CHR ''}'' \<notin> set (w2 @ fenceClose @ post)"
    using post ws_no_brace(2) [OF ws(2)] fence_no_brace(2) by simp
  have "matchBraces ((pre @ fenceOpen @ w1) @ j @ (w2 @ fenceClose @ post)) = Some j"
    using nb1 nb2 obj by (rule matchBraces_wrapped)
  then have m: "matchBraces ?raw = Some j" by simp
  obtain e where e: "JSON_parse (trim ?raw) = Inl e"
    using whole by (cases "JSON_parse (trim ?raw)") auto
  have "parseWithFallback JSON_parse ?raw JUndefined = Inr S"
    using e m ser by (simp add: parseWithFallback_def tryParse_def)
  then show "parseStoryResponse JSON_parse ?raw req = Inr S"
    using shape by (simp add: parseStoryResponse_def)
qed

theorem parseStoryResponse_recovers_story_witness:
  "JSON_parse storyJson = Inr storyValue
   \<and> parseStoryResponse JSON_parse ([CHR 0x20, CHR 0x0A] @ storyJson @ [CHR 0x0A]) fantasy3
       = Inr storyValue
   \<and> parseStoryResponse JSON_parse
         (''Here is your story: '' @ fenceOpen @ [CHR 0x20, CHR 0x0A] @ storyJson @ [CHR 0x0A]
          @ fenceClose @ '' Enjoy!'') fantasy3
       = Inr storyValue"
proof -
  have 1: "JSON_parse storyJson = Inr storyValue" by code_simp
  have 2: "validateStoryStructure storyValue = Inr True" by code_simp
  have 3: "storyJson \<noteq> []" "hd storyJson = CHR ''{''" "last storyJson = CHR ''}''"
    by (simp_all add: storyJson_def)
  have 4: "list_all isWhiteSpace [CHR 0x20, CHR 0x0A]" "list_all isWhiteSpace [CHR 0x0A]"
    by (simp_all add: isWhiteSpace_def)
  have 5: "isl (JSON_parse (trim (''Here is your story: '' @ fenceOpen @ [CHR 0x20, CHR 0x0A]
      @ storyJson @ [CHR 0x0A] @ fenceClose @ '' Enjoy!'')))"
    by code_simp
  have 6: "CHR ''{'' \<notin> set ''Here is your story: ''" "CHR ''}'' \<notin> set '' Enjoy!''"
    by simp_all
  show ?thesis
    using 1 parseStoryResponse_recovers_story [OF 1 2 3 4 5 6, of fantasy3] by simp
qed

text \<open>
  The claim as stated fails when the prose before the fence contains a brace: the span
  from the first \<^verbatim>\<open>{\<close> to the last \<^verbatim>\<open>}\<close> is then not the JSON text, no attempt parses,
  and the response is read as plain text.
\<close>

theorem fenced_story_counterexample:
  "JSON_parse storyJson = Inr storyValue
   \<and> validateStoryStructure storyValue = Inr True
   \<and> parseStoryResponse JSON_parse
         (''Here is {your} story: '' @ fenceOpen @ [CHR 0x0A] @ storyJson @ [CHR 0x0A]
          @ fenceClose) fantasy3
       \<noteq> Inr storyValue"
  by code_simp





section \<open>Proofs: parseWithFallback\<close>

text \<open>
  C10. \<^verbatim>\<open>parseWithFallback\<close> returns for every parser, every text and every fallback, and
  never throws: its value is what \<^verbatim>\<open>JSON.parse\<close> gives on the first of the candidate texts
  it accepts (the trimmed text, the span from the first \<^verbatim>\<open>{\<close> to the last \<^verbatim>\<open>}\<close>, the cleaned
  text when it is not empty), and \<^verbatim>\<open>fallback || null\<close> when it accepts none.
\<close>

theorem parseWithFallback_total:
  "parseWithFallback JSON_parse s fallback =
     Inr (case find (\<lambda>x. \<not> isl (JSON_parse x)) (candidates s) of
            Some x \<Rightarrow> projr (JSON_parse x)
          | None \<Rightarrow> if truthy fallback then fallback else JNull)"
proof (cases "JSON_parse (trim s)")
  case (Inr v)
  then show ?thesis
    by (simp add: parseWithFallback_def candidates_def)
next
  case first: (Inl e)
  show ?thesis
  proof (cases "matchBraces s")
    case None
    then show ?thesis
      using first
      by (cases "JSON_parse (cleanString s)")
         (simp_all add: parseWithFallback_def candidates_def tryParse_def Let_def)
  next
    case (Some m)
    show ?thesis
    proof (cases "JSON_parse m")
      case (Inr v)
      then show ?thesis
        using first Some by (simp add: parseWithFallback_def candidates_def tryParse_def)
    next
      case (Inl e2)
      then show ?thesis
        using first Some
        by (cases "JSON_parse (cleanString s)")
           (simp_all add: parseWithFallback_def candidates_def tryParse_def Let_def)
    qed
  qed
qed

section \<open>Proofs: validation\<close>










lemma validate_not_object:
  "\<not> (truthy data \<and> typeof data = ''object'') \<Longrightarrow>
     validateStoryRequest data =
       \<lparr>isValid = False,
        errors = [\<lparr>field = ''root'', message = ''Request data must be an object''\<rparr>]\<rparr>"
  by (auto simp: validateStoryRequest_def)







section \<open>Proofs: sanitization\<close>

lemma sanitizeString_length: "length (sanitizeString s) \<le> 1000"
  by (simp add: sanitizeString_def)

lemma sanitizeString_no_nul: "\<not> hasNul (sanitizeString s)"
  by (auto simp: sanitizeString_def hasNul_def removeNul_def dest: in_set_takeD)

text \<open>A string has a tag exactly when \<^verbatim>\<open><>\<close> is a subsequence of it; every pass of the
  sanitizer only deletes characters, and after the first pass no \<^verbatim>\<open><\<close> is followed by a
  \<^verbatim>\<open>>\<close>. So no later deletion can bring a tag back.\<close>

lemma subseq_trans': "subseq xs ys \<Longrightarrow> subseq ys zs \<Longrightarrow> subseq xs zs"
  by (rule subseq_order.trans)

lemma hasTag_subseq: "hasTag s \<longleftrightarrow> subseq ''<>'' s"
  by (induction s) (auto simp: hasTag_def subseq_singleton_left)

lemma stripTags_subseq: "subseq (stripTags s) s"
proof (induction s rule: stripTags.induct)
  case 1
  show ?case by simp
next
  case (2 c cs)
  show ?case
  proof (cases "c = CHR ''<'' \<and> CHR ''>'' \<in> set cs")
    case True
    have "suffix (tl (dropWhile (\<lambda>x. x \<noteq> CHR ''>'') cs)) cs"
      by (rule suffix_order.trans [OF suffix_tl suffix_dropWhile])
    then have "subseq (tl (dropWhile (\<lambda>x. x \<noteq> CHR ''>'') cs)) (c # cs)"
      by (meson subseq_Cons' subseq_Cons2 suffix_imp_subseq list_emb_Cons)
    with True "2.IH"(1) show ?thesis
      by (auto intro: subseq_trans')
  next
    case False
    with "2.IH"(2) show ?thesis by auto
  qed
qed

lemma stripTags_clean: "\<not> hasTag (stripTags s)"
proof (induction s rule: stripTags.induct)
  case 1
  show ?case by (simp add: hasTag_def)
next
  case (2 c cs)
  show ?case
  proof (cases "c = CHR ''<'' \<and> CHR ''>'' \<in> set cs")
    case True
    with "2.IH"(1) show ?thesis by simp
  next
    case False
    have sub: "set (stripTags cs) \<subseteq> set cs"
      using stripTags_subseq [of cs] by (auto elim: list_emb_set)
    show ?thesis
    proof (cases "c = CHR ''<''")
      case True
      then have "CHR ''>'' \<notin> set cs" using False by simp
      then have "CHR ''>'' \<notin> set (stripTags cs)" using sub by auto
      then show ?thesis using True False by (simp add: hasTag_def)
    next
      case c: False
      then show ?thesis using False "2.IH"(2) by (simp add: hasTag_def)
    qed
  qed
qed

lemma removeAllCI_subseq: "subseq (removeAllCI pat s) s"
proof (induction pat s rule: removeAllCI.induct)
  case (1 pat)
  show ?case by simp
next
  case (2 pat c cs)
  show ?case
  proof (cases "pat \<noteq> [] \<and> startsWith (toLowerCase (c # cs)) pat")
    case True
    have "subseq (drop (length pat) (c # cs)) (c # cs)"
      by (rule suffix_imp_subseq [OF suffix_drop])
    with True "2.IH"(1) show ?thesis
      by (auto intro: subseq_trans' simp del: drop_Suc_Cons)
  next
    case False
    with "2.IH"(2) show ?thesis by auto
  qed
qed

lemma handlerRest_suffix: "handlerRest s = Some r \<Longrightarrow> suffix r s"
proof -
  assume h: "handlerRest s = Some r"
  let ?r1 = "dropWhile isWordChar (drop 2 s)"
  let ?r2 = "dropWhile isWhiteSpace ?r1"
  from h have r: "r = tl ?r2"
    by (auto simp: handlerRest_def Let_def split: if_splits)
  have "suffix (tl ?r2) ?r2" by simp
  also have "suffix ?r2 ?r1" by (rule suffix_dropWhile)
  also have "suffix ?r1 (drop 2 s)" by (rule suffix_dropWhile)
  also have "suffix (drop 2 s) s" by (rule suffix_drop)
  finally show ?thesis using r by simp
qed

lemma stripHandlers_subseq: "subseq (stripHandlers s) s"
proof (induction s rule: stripHandlers.induct)
  case 1
  show ?case by simp
next
  case (2 c cs)
  show ?case
  proof (cases "handlerRest (c # cs)")
    case None
    with "2.IH"(1) show ?thesis by auto
  next
    case (Some r)
    then have "subseq r (c # cs)"
      by (intro suffix_imp_subseq handlerRest_suffix)
    with Some "2.IH"(2) show ?thesis
      by (auto intro: subseq_trans')
  qed
qed

lemma sanitizeString_subseq: "subseq (sanitizeString s) (stripTags (trim s))"
proof -
  let ?a = "stripTags (trim s)"
  let ?b = "removeAllCI ''javascript:'' ?a"
  let ?c = "stripHandlers ?b"
  let ?d = "removeNul ?c"
  have "subseq (take 1000 ?d) ?d"
    by (rule prefix_imp_subseq) (rule take_is_prefix)
  also have "subseq ?d ?c" by (simp add: removeNul_def)
  also have "subseq ?c ?b" by (rule stripHandlers_subseq)
  also have "subseq ?b ?a" by (rule removeAllCI_subseq)
  finally show ?thesis by (simp add: sanitizeString_def)
qed

lemma sanitizeString_no_tag: "\<not> hasTag (sanitizeString s)"
proof
  assume "hasTag (sanitizeString s)"
  then have "subseq ''<>'' (sanitizeString s)" by (simp add: hasTag_subseq)
  then have "subseq ''<>'' (stripTags (trim s))"
    using sanitizeString_subseq by (rule subseq_trans')
  then show False using stripTags_clean by (simp add: hasTag_subseq)
qed

text \<open>
  C5 (the code departs from the claim). Each pattern is removed in a single pass, so
  an occurrence that only forms once a removal has joined its two halves stays: the
  sanitized string below still contains \<^verbatim>\<open>javascript:\<close>, and the removal of a null
  character after the handler pass leaves \<^verbatim>\<open>onclick=\<close>. The bound on the length, the
  absence of null characters and the absence of tags hold for every input
  (\<open>sanitizeString_length\<close>, \<open>sanitizeString_no_nul\<close>, \<open>sanitizeString_no_tag\<close>).
\<close>

theorem sanitizeString_leaves_scheme:
  "sanitizeString ''javajavascript:script:alert(1)'' = ''javascript:alert(1)''
   \<and> hasJavascriptScheme (sanitizeString ''javajavascript:script:alert(1)'')
   \<and> sanitizeString (''on'' @ [CHR 0x00] @ ''click=run()'') = ''onclick=run()''
   \<and> hasHandler (sanitizeString (''on'' @ [CHR 0x00] @ ''click=run()''))"
  by code_simp

section \<open>Proofs: the continue route\<close>

lemma mapParagraphs_ids:
  "mapParagraphs numberText g startingId index ps = Inr out \<Longrightarrow>
     length out = length ps
     \<and> (\<forall>i < length out. readProp (out ! i) ''id'' = JNum (Finite (of_nat (startingId + index + i))))"
proof (induction ps arbitrary: index out)
  case Nil
  then show ?case by simp
next
  case (Cons p ps)
  from Cons.prems obtain t ip s rest where
    rest: "mapParagraphs numberText g startingId (index + 1) ps = Inr rest"
    and out: "out = paragraphObject (startingId + index) t (enhancePrompt s g) # rest"
    by (auto split: sum.splits)
  from Cons.IH [OF rest] have len: "length rest = length ps"
    and ids: "\<forall>i < length rest.
        readProp (rest ! i) ''id'' = JNum (Finite (of_nat (startingId + (index + 1) + i)))"
    by simp_all
  show ?case
  proof (intro conjI allI impI)
    show "length out = length (p # ps)" using out len by simp
  next
    fix i assume "i < length out"
    then show "readProp (out ! i) ''id'' = JNum (Finite (of_nat (startingId + index + i)))"
      using out ids by (cases i) (simp_all add: paragraphObject_def)
  qed
qed

text \<open>
  C7. Whenever the continue endpoint answers with new paragraphs, the i-th of them
  (counting from 0) has the id \<^verbatim>\<open>existingParagraphs.length + 1 + i\<close>, for every provider,
  every answer of the provider and every request.
\<close>

theorem continue_ids:
  assumes "POST provider JSON_parse numberText continueRequest = NewParagraphs newParagraphs"
  shows "\<forall>i < length newParagraphs.
           readProp (newParagraphs ! i) ''id''
             = JNum (Finite (of_nat (length (existingParagraphs continueRequest) + 1 + i)))"
proof -
  from assms obtain ps where
    "mapParagraphs numberText (genre' continueRequest)
       (length (existingParagraphs continueRequest) + 1) 0 ps = Inr newParagraphs"
    by (auto simp: POST_def Let_def split: if_splits sum.splits jsval.splits)
  from mapParagraphs_ids [OF this] show ?thesis by simp
qed

theorem continue_ids_witness:
  "POST twoMore JSON_parse (\<lambda>n. []) continueThree
     = NewParagraphs
         [paragraphObject 4 (JStr ''Four.'') (enhancePrompt ''A gate'' ''fantasy''),
          paragraphObject 5 (JStr ''Five.'') (enhancePrompt ''A hall'' ''fantasy'')]
   \<and> idsOf [paragraphObject 4 (JStr ''Four.'') (enhancePrompt ''A gate'' ''fantasy''),
            paragraphObject 5 (JStr ''Five.'') (enhancePrompt ''A hall'' ''fantasy'')]
       = [JNum (Finite 4), JNum (Finite 5)]"
proof -
  let ?ps = "[paragraphObject 4 (JStr ''Four.'') (enhancePrompt ''A gate'' ''fantasy''),
          paragraphObject 5 (JStr ''Five.'') (enhancePrompt ''A hall'' ''fantasy'')]"
  have run: "POST twoMore JSON_parse (\<lambda>n. []) continueThree = NewParagraphs ?ps"
    by code_simp
  have ids: "\<forall>i < length ?ps. readProp (?ps ! i) ''id''
      = JNum (Finite (of_nat (length (existingParagraphs continueThree) + 1 + i)))"
    by (rule continue_ids [OF run])
  have "readProp (?ps ! 0) ''id'' = JNum (Finite 4)"
    using ids [rule_format, of 0] by (simp add: continueThree_def)
  moreover have "readProp (?ps ! 1) ''id'' = JNum (Finite 5)"
    using ids [rule_format, of 1] by (simp add: continueThree_def)
  ultimately have "idsOf ?ps = [JNum (Finite 4), JNum (Finite 5)]"
    by (simp add: idsOf_def)
  with run show ?thesis by simp
qed

section \<open>Proofs: the placeholder image provider\<close>






section \<open>Proofs: provider credentials\<close>

lemma envOr_missing: "missing e name \<Longrightarrow> envOr e name dflt = dflt"
  by (auto simp: missing_def envOr_def)

text \<open>
  C9, amended. With the Gemini key missing (neither \<^verbatim>\<open>GEMINI_API_KEY\<close> nor
  \<^verbatim>\<open>GOOGLE_API_KEY\<close> set), the constructors of the Gemini text provider and of the Gemini
  image provider throw. The DeepInfra and Replicate constructors never throw: with the key
  missing they build a provider whose health check is false and whose first
  \<^verbatim>\<open>generateText\<close> / \<^verbatim>\<open>generateImage\<close> throws, before anything is sent.
\<close>

theorem credential_checks:
  "(missing e ''GEMINI_API_KEY'' \<and> missing e ''GOOGLE_API_KEY'' \<longrightarrow>
      newGeminiProvider e config = Inl (Error ''Gemini API key not configured'')
      \<and> newGeminiImageProvider e m = Inl (Error ''Gemini API key not configured''))
   \<and> (missing e ''DEEPINFRA_API_KEY'' \<longrightarrow>
      deepInfraGenerateText exchange (newDeepInfraProvider e config) prompt
        = Inl (Error ''DeepInfra API key not configured'')
      \<and> \<not> deepInfraCheckHealth (newDeepInfraProvider e config))
   \<and> (missing e ''REPLICATE_API_TOKEN'' \<longrightarrow>
      replicateGenerateImage exchange' (newReplicateImageProvider e m) prompt'
        = Inl (Error ''Replicate API key not configured'')
      \<and> \<not> replicateCheckHealth (newReplicateImageProvider e m))"
  by (simp add: envOr_missing newGeminiProvider_def newGeminiImageProvider_def geminiKey_def
      deepInfraGenerateText_def newDeepInfraProvider_def deepInfraCheckHealth_def
      replicateGenerateImage_def newReplicateImageProvider_def replicateCheckHealth_def)

theorem credential_checks_witness:
  "newGeminiProvider Map.empty \<lparr>model = None, temperature = None, maxTokens = None\<rparr>
     = Inl (Error ''Gemini API key not configured'')
   \<and> newGeminiImageProvider Map.empty None = Inl (Error ''Gemini API key not configured'')
   \<and> deepInfraGenerateText (\<lambda>p s. Inr ''text'')
        (newDeepInfraProvider Map.empty \<lparr>model = None, temperature = None, maxTokens = None\<rparr>)
        ''Tell a story''
       = Inl (Error ''DeepInfra API key not configured'')
   \<and> replicateGenerateImage (\<lambda>p s. Inr ''url'') (newReplicateImageProvider Map.empty None)
        ''A dragon''
       = Inl (Error ''Replicate API key not configured'')"
  using credential_checks
    [of Map.empty "\<lparr>model = None, temperature = None, maxTokens = None\<rparr>" None
        "\<lambda>p s. Inr ''text''" "''Tell a story''" "\<lambda>p s. Inr ''url''" "''A dragon''"]
  by (simp add: missing_def)

text \<open>The claim as stated fails for the DeepInfra provider: built without a key, the
  constructor returns the object, and the error comes with the first call.\<close>

theorem deferred_credential_counterexample:
  "newDeepInfraProvider Map.empty \<lparr>model = None, temperature = None, maxTokens = None\<rparr>
     = DeepInfraProvider ''https://api.deepinfra.com/v1/inference''
         ''meta-llama/Llama-3.1-70B-Instruct'' [] (7 / 10) 2000
   \<and> deepInfraGenerateText (\<lambda>p s. Inr ''text'')
        (newDeepInfraProvider Map.empty \<lparr>model = None, temperature = None, maxTokens = None\<rparr>)
        ''Tell a story''
       = Inl (Error ''DeepInfra API key not configured'')"
  by (simp add: newDeepInfraProvider_def deepInfraGenerateText_def envOr_def orString_def
      orTemperature_def orMaxTokens_def DEFAULT_TEMPERATURE_def DEFAULT_MAX_TOKENS_def)

section \<open>Proofs: rate limiting\<close>










text \<open>
  The window is closed on the right: a call at exactly \<open>resetTime\<close> still belongs to it
  (the code resets only when \<^verbatim>\<open>now > current.resetTime\<close>), and a rejection there returns
  a reset time equal to the time of the call.
\<close>

lemma rate_limit_at_reset_time:
  "checkRateLimit (Map.empty(c \<mapsto> \<lparr>count = 10, resetTime = 60000\<rparr>)) c 10 60000 60000
     = (\<lparr>allowed = False, resetAt = 60000\<rparr>, Map.empty(c \<mapsto> \<lparr>count = 10, resetTime = 60000\<rparr>))"
  by (simp add: checkRateLimit_def)


end
